theory Spec2Isabelle
  imports Complex_Main "HOL-Library.Sublist"
begin

section \<open>Geotag embedding and extraction\<close>

text \<open>
  A JavaScript number is an IEEE double. It is denoted here by the rational that is
  its value, and \<open>fl\<close> rounds a rational to the nearest double, a tie going to
  the even significand of 53 bits. Overflow and subnormal numbers are not modelled:
  they are far from the range of coordinates.
\<close>

function bit_length :: "int \<Rightarrow> int" where
  "bit_length n = (if n \<le> 0 then 0 else 1 + bit_length (n div 2))"
  by pat_completeness auto
termination
  by (relation "measure nat") auto

declare bit_length.simps [simp del]

definition pow2 :: "int \<Rightarrow> rat" where
  "pow2 k = (if 0 \<le> k then 2 ^ nat k else 1 / 2 ^ nat (- k))"

text \<open>The exponent \<open>e\<close> with \<open>2 ^ e \<le> \<bar>x\<bar> < 2 ^ (e + 1)\<close>, for \<open>x\<close> other than 0.\<close>

definition binary_exponent :: "rat \<Rightarrow> int" where
  "binary_exponent x =
     (case quotient_of \<bar>x\<bar> of (p, q) \<Rightarrow>
        (let k = bit_length p - bit_length q
         in if pow2 k \<le> \<bar>x\<bar> then k else k - 1))"

definition round_half_even :: "rat \<Rightarrow> int" where
  "round_half_even q =
     (let n = \<lfloor>q\<rfloor>; r = q - of_int n
      in if r < 1 / 2 then n else if r > 1 / 2 then n + 1 else if even n then n else n + 1)"

definition fl :: "rat \<Rightarrow> rat" where
  "fl x =
     (if x = 0 then 0
      else (let u = pow2 (binary_exponent x - 52) in of_int (round_half_even (x / u)) * u))"

text \<open>
  \<open>Math.floor\<close> is \<open>floor\<close>; \<open>Math.round\<close> rounds to the nearest integer, a tie
  going up; \<open>Math.abs\<close> is exact.
\<close>

definition Math_round :: "rat \<Rightarrow> int" where
  "Math_round x = \<lfloor>x + 1 / 2\<rfloor>"

text \<open>An EXIF rational is a pair \<open>[numerator, denominator]\<close>; a coordinate is three of them.\<close>

type_synonym rational = "int \<times> int"
type_synonym dms = "rational \<times> rational \<times> rational"

text \<open>
  \<open>degToRationalArray\<close>: the argument is the double nearest to the given rational,
  and every subtraction and multiplication of the source is rounded.
\<close>

definition degToRationalArray :: "rat \<Rightarrow> dms" where
  "degToRationalArray deg =
     (let a = \<bar>fl deg\<bar>;
          d = \<lfloor>a\<rfloor>;
          mFloat = fl (fl (a - of_int d) * 60);
          m = \<lfloor>mFloat\<rfloor>;
          s = Math_round (fl (fl (fl (mFloat - of_int m) * 60) * 100))
      in ((d, 1), (m, 1), (s, 100)))"

record GpsIfd =
  GPSLatitudeRef :: string
  GPSLatitude :: dms
  GPSLongitudeRef :: string
  GPSLongitude :: dms

definition getGpsIfd :: "rat \<Rightarrow> rat \<Rightarrow> GpsIfd" where
  "getGpsIfd lat lon =
     \<lparr> GPSLatitudeRef = (if lat \<ge> 0 then ''N'' else ''S''),
       GPSLatitude = degToRationalArray lat,
       GPSLongitudeRef = (if lon \<ge> 0 then ''E'' else ''W''),
       GPSLongitude = degToRationalArray lon \<rparr>"

text \<open>
  The image container: its encoded pixel data and its GPS block, if it has one. The
  library calls \<open>piexif.dump\<close>, \<open>piexif.insert\<close> and \<open>piexif.load\<close> are not part of the
  repository; they are taken to store the GPS block in the container and to read the
  same block back.
\<close>

record JpegDataUrl =
  jpeg_data :: string
  exif_GPS :: "GpsIfd option"

definition insertExifIntoJpegDataUrl :: "JpegDataUrl \<Rightarrow> rat \<Rightarrow> rat \<Rightarrow> JpegDataUrl" where
  "insertExifIntoJpegDataUrl dataUrl lat lon = dataUrl\<lparr> exif_GPS := Some (getGpsIfd lat lon) \<rparr>"

definition piexif_load :: "JpegDataUrl \<Rightarrow> GpsIfd option" where
  "piexif_load dataUrl = exif_GPS dataUrl"

text \<open>
  The EXIF branch of \<open>handleGalleryUpload\<close> and \<open>handleDrop\<close> (store-then-verify file):
  \<open>latArr[0][0] + latArr[1][0] / 60 + latArr[2][0] / 3600\<close>, times \<open>-1\<close> for the
  reference \<open>S\<close> (latitude) or \<open>W\<close> (longitude). Only index \<open>[0]\<close> of each pair, the
  numerator, is read. The result is \<open>None\<close> when the image has no GPS block, and the
  caller then falls back to the device's position. The two divisions and two additions
  are the exact ones: the double that the code computes lies within 10^-13 of this
  value.
\<close>

definition rationalsToDeg :: "dms \<Rightarrow> rat" where
  "rationalsToDeg arr =
     (case arr of ((d0, d1), (m0, m1), (s0, s1)) \<Rightarrow>
        of_int d0 + of_int m0 / 60 + of_int s0 / 3600)"

definition exifLatLon :: "JpegDataUrl \<Rightarrow> (rat \<times> rat) option" where
  "exifLatLon dataUrl =
     (case piexif_load dataUrl of
        None \<Rightarrow> None
      | Some gps \<Rightarrow>
          (let latDeg = rationalsToDeg (GPSLatitude gps);
               lonDeg = rationalsToDeg (GPSLongitude gps)
           in Some (latDeg * (if GPSLatitudeRef gps = ''S'' then -1 else 1),
                    lonDeg * (if GPSLongitudeRef gps = ''W'' then -1 else 1))))"


section \<open>The verifier's HTTP response\<close>

text \<open>
  A value of the parsed response body. \<open>JUndefined\<close> is what reading a property that
  the object does not have gives. An object is the list of its own properties, one
  entry for each name.
\<close>

datatype jsval =
    JUndefined
  | JNull
  | JBool bool
  | JNum rat
  | JStr string
  | JArr "jsval list"
  | JObj "(string \<times> jsval) list"

text \<open>
  \<open>json.name\<close> for one of the names read here (\<open>is_real\<close>, \<open>valid\<close>,
  \<open>authenticity_score\<close>, \<open>score\<close>, \<open>reason\<close>, \<open>message\<close>). A value other than
  an object has none of these properties. Reading a property of \<open>null\<close> throws a
  TypeError: where the source reads the first property, the functions below test
  for that and take the path of the exception.
\<close>

fun js_prop :: "jsval \<Rightarrow> string \<Rightarrow> jsval" where
  "js_prop (JObj kvs) name = (case map_of kvs name of None \<Rightarrow> JUndefined | Some v \<Rightarrow> v)"
| "js_prop v name = JUndefined"

definition throws_on_property_read :: "jsval \<Rightarrow> bool" where
  "throws_on_property_read v = (v = JNull \<or> v = JUndefined)"

text \<open>\<open>!!v\<close>, and the operand tests of \<open>||\<close>.\<close>

fun truthy :: "jsval \<Rightarrow> bool" where
  "truthy JUndefined = False"
| "truthy JNull = False"
| "truthy (JBool b) = b"
| "truthy (JNum n) = (n \<noteq> 0)"
| "truthy (JStr s) = (s \<noteq> [])"
| "truthy (JArr xs) = True"
| "truthy (JObj kvs) = True"

text \<open>\<open>a || b\<close> and \<open>a ?? b\<close>.\<close>

definition js_or :: "jsval \<Rightarrow> jsval \<Rightarrow> jsval" where
  "js_or a b = (if truthy a then a else b)"

definition js_nullish :: "jsval \<Rightarrow> jsval \<Rightarrow> jsval" where
  "js_nullish a b = (if a = JUndefined \<or> a = JNull then b else a)"

fun typeof_boolean :: "jsval \<Rightarrow> bool" where
  "typeof_boolean (JBool b) = True"
| "typeof_boolean v = False"

fun typeof_number :: "jsval \<Rightarrow> bool" where
  "typeof_number (JNum n) = True"
| "typeof_number v = False"

text \<open>
  What \<open>fetch\<close> and \<open>res.json()\<close> give: the call throws, or it returns a response
  with a status code and a body; the body is \<open>None\<close> when \<open>res.json()\<close> throws.
  \<open>res.ok\<close> holds for the status codes 200 to 299.
\<close>

datatype http_outcome = FetchThrows | Response nat "jsval option"

definition res_ok :: "nat \<Rightarrow> bool" where
  "res_ok code = (200 \<le> code \<and> code \<le> 299)"

text \<open>The two request bodies sent to \<open>POST /verify-image\<close>: the image and the asset id.\<close>

datatype verify_request = Image_url string string | Image_base64 string string

record VerificationResult =
  is_real :: bool
  authenticity_score :: jsval
  reason :: jsval

definition network_error :: VerificationResult where
  "network_error =
     \<lparr> is_real = False, authenticity_score = JNum 0, reason = JStr ''network-error'' \<rparr>"

definition verify_failed :: VerificationResult where
  "verify_failed =
     \<lparr> is_real = False, authenticity_score = JNum 0, reason = JStr ''verify-failed'' \<rparr>"

text \<open>
  \<open>verifyImage\<close> (store-then-verify file), given the outcome of its \<open>fetch\<close>. The
  \<open>catch\<close> block, which returns \<open>network_error\<close>, is reached when \<open>fetch\<close> throws,
  when \<open>res.json()\<close> throws and when the body is \<open>null\<close>.
\<close>

definition verifyImage :: "http_outcome \<Rightarrow> VerificationResult" where
  "verifyImage res =
     (case res of
        FetchThrows \<Rightarrow> network_error
      | Response code body \<Rightarrow>
          if \<not> res_ok code then verify_failed
          else
            (case body of
               None \<Rightarrow> network_error
             | Some json \<Rightarrow>
                 if throws_on_property_read json then network_error
                 else
                   \<lparr> is_real =
                       (if typeof_boolean (js_prop json ''is_real'')
                        then js_prop json ''is_real'' = JBool True
                        else truthy (js_prop json ''valid'')),
                     authenticity_score =
                       (if typeof_number (js_prop json ''authenticity_score'')
                        then js_prop json ''authenticity_score''
                        else js_nullish (js_prop json ''score'') (JNum 0)),
                     reason =
                       js_or (js_or (js_prop json ''reason'') (js_prop json ''message''))
                             (JStr []) \<rparr>))"

text \<open>
  The decoding inside \<open>uploadImageToSupabase\<close> of the verify-then-store file:
  \<open>verifyJson.is_real === true\<close>, \<open>verifyJson.authenticity_score ?? 0\<close> and
  \<open>verifyJson.message ?? "Rejected"\<close>. \<open>None\<close> is the TypeError on a \<open>null\<close> body.
\<close>

definition decodeVerifyJson :: "jsval \<Rightarrow> VerificationResult option" where
  "decodeVerifyJson verifyJson =
     (if throws_on_property_read verifyJson then None
      else
        Some \<lparr> is_real = (js_prop verifyJson ''is_real'' = JBool True),
               authenticity_score =
                 js_nullish (js_prop verifyJson ''authenticity_score'') (JNum 0),
               reason = js_nullish (js_prop verifyJson ''message'') (JStr ''Rejected'') \<rparr>)"


section \<open>Persisted records, the evidence store and the outside world\<close>

datatype asset_status = Pending | NonVerified | Authenticated

text \<open>
  A row of the table \<open>assets\<close> (the interface \<open>Asset\<close>); its column \<open>id\<close> is the
  field \<open>a_id\<close> here. \<open>None\<close> is \<open>null\<close>.
\<close>

record Asset =
  a_id :: string
  asset_name :: string
  status :: asset_status
  issued_date :: "string option"
  user_id :: "string option"
  image_url :: "string option"
  latitude :: "rat option"
  longitude :: "rat option"
  location_address :: "string option"
  created_at :: "string option"
  verified_at :: "string option"

text \<open>
  A row of the table \<open>required_documents\<close>; its column \<open>id\<close> is the field \<open>doc_id\<close>.
  The interface \<open>RequiredDoc\<close> of the dashboard is the same row without \<open>asset_id\<close>,
  which the dashboard never reads.
\<close>

record RequiredDoc =
  doc_id :: string
  asset_id :: string
  document_name :: string
  is_uploaded :: bool
  uploaded_at :: "string option"

text \<open>
  The remote state: the two tables, in the order in which the queries return their
  rows, and the object paths of the storage bucket \<open>asset-images\<close>.
\<close>

record Backend =
  assets :: "Asset list"
  required_documents :: "RequiredDoc list"
  asset_images :: "string list"

text \<open>
  The calls to the remote store. Each may come back with an error; a call that does
  leaves the store as it was.
\<close>

datatype call =
    Update_required_documents
  | Select_required_documents
  | Storage_list
  | Storage_remove
  | Storage_upload
  | Storage_upsert
  | Update_asset_preview
  | Update_asset_status
  | Select_asset_single
  | Select_asset_documents
  | Update_status_by_reviewer

text \<open>
  What a handler gets from outside while it runs: which calls fail, the configured
  base URL, the clock (\<open>Date.now()\<close> as decimal text, \<open>new Date().toISOString()\<close>),
  the verifier's answer to a request, and the display name that the reverse geocoder
  finds for a position (\<open>None\<close> when the lookup fails).
\<close>

record Env =
  fails :: "call \<Rightarrow> bool"
  VITE_SUPABASE_URL :: string
  Date_now :: string
  toISOString :: string
  ai_backend :: "verify_request \<Rightarrow> http_outcome"
  nominatim :: "rat \<Rightarrow> rat \<Rightarrow> string option"

definition getAddressFromCoords :: "Env \<Rightarrow> rat \<Rightarrow> rat \<Rightarrow> string" where
  "getAddressFromCoords env lat lon =
     (case nominatim env lat lon of
        None \<Rightarrow> ''Unknown Location''
      | Some display_name \<Rightarrow> if display_name = [] then ''Unknown Location'' else display_name)"

subsection \<open>Storage\<close>

definition public_prefix :: "Env \<Rightarrow> string" where
  "public_prefix env = VITE_SUPABASE_URL env @ ''/storage/v1/object/public/asset-images/''"

definition getPublicUrl :: "Env \<Rightarrow> string \<Rightarrow> string" where
  "getPublicUrl env filePath = public_prefix env @ filePath"

text \<open>\<open>list(folder)\<close>: the names of the objects whose path starts with the folder.\<close>

definition storage_list :: "Backend \<Rightarrow> string \<Rightarrow> string list" where
  "storage_list b folder = map (drop (length folder)) (filter (prefix folder) (asset_images b))"

definition storage_remove :: "string \<Rightarrow> Backend \<Rightarrow> Backend" where
  "storage_remove path b = b\<lparr> asset_images := filter (\<lambda>p. p \<noteq> path) (asset_images b) \<rparr>"

definition storage_put :: "string \<Rightarrow> Backend \<Rightarrow> Backend" where
  "storage_put path b =
     b\<lparr> asset_images :=
          (if path \<in> set (asset_images b) then asset_images b else asset_images b @ [path]) \<rparr>"

subsection \<open>Table updates\<close>

definition update_status :: "string \<Rightarrow> asset_status \<Rightarrow> Backend \<Rightarrow> Backend" where
  "update_status assetId s b =
     b\<lparr> assets := map (\<lambda>a. if a_id a = assetId then a\<lparr> status := s \<rparr> else a) (assets b) \<rparr>"

definition update_preview ::
  "string \<Rightarrow> string \<Rightarrow> rat option \<Rightarrow> rat option \<Rightarrow> string option \<Rightarrow> Backend \<Rightarrow> Backend" where
  "update_preview assetId url lat lon address b =
     b\<lparr> assets :=
          map (\<lambda>a. if a_id a = assetId
                    then a\<lparr> image_url := Some url, latitude := lat, longitude := lon,
                            location_address := address \<rparr>
                    else a) (assets b) \<rparr>"

text \<open>
  The payload \<open>{ is_uploaded: newValue, uploaded_at: newValue ? now : null }\<close> applied
  to the documents with the given id: the same shape in the table update and in the
  update of the dashboard's own list.
\<close>

definition toggle_doc :: "string \<Rightarrow> bool \<Rightarrow> string \<Rightarrow> RequiredDoc \<Rightarrow> RequiredDoc" where
  "toggle_doc docId newValue now d =
     (if doc_id d = docId
      then d\<lparr> is_uploaded := newValue, uploaded_at := (if newValue then Some now else None) \<rparr>
      else d)"

subsection \<open>String splitting\<close>

text \<open>\<open>s.split(sep)\<close> for a separator that is not empty.\<close>

fun split_from :: "string \<Rightarrow> string \<Rightarrow> string \<Rightarrow> string list" where
  "split_from sep cur [] = [cur]"
| "split_from sep cur (c # cs) =
     (if sep \<noteq> [] \<and> prefix sep (c # cs)
      then cur # split_from sep [] (drop (length sep - 1) cs)
      else split_from sep (cur @ [c]) cs)"

definition split :: "string \<Rightarrow> string \<Rightarrow> string list" where
  "split s sep = split_from sep [] s"


section \<open>The beneficiary's dashboard\<close>

text \<open>
  The component state that the handlers read and set. The lists \<open>assets\<close> and \<open>user\<close>
  and the progress flags only feed the display and are left out.

  A handler is a function declared inside the component function, so the names
  \<open>selectedAsset\<close>, \<open>requiredDocs\<close> and \<open>assetImages\<close> in its body, and in the
  body of every function it calls, are the constants of the render that created it. A
  call of \<open>setRequiredDocs\<close> or \<open>setAssetImages\<close> changes the state that the next
  render will see, not these constants. Each operation below therefore takes the
  state twice: \<open>cl\<close>, the state of the render whose handler is running (read), and
  \<open>st\<close>, the state as set so far (written). An event runs its handler with both equal
  to the current state.

  \<open>1\<close> marks the store-then-verify file and \<open>2\<close> the verify-then-store file.
\<close>

record UserDashboard =
  selectedAsset :: "Asset option"
  assetImages :: "string list"
  currentImageIndex :: nat
  requiredDocs :: "RequiredDoc list"

definition select_required_documents :: "Backend \<Rightarrow> string \<Rightarrow> RequiredDoc list" where
  "select_required_documents b assetId =
     filter (\<lambda>d. asset_id d = assetId) (required_documents b)"

definition fetchRequiredDocuments1 ::
  "Env \<Rightarrow> Backend \<Rightarrow> string \<Rightarrow> UserDashboard \<Rightarrow> UserDashboard" where
  "fetchRequiredDocuments1 env b assetId st =
     (if fails env Select_required_documents then st\<lparr> requiredDocs := [] \<rparr>
      else st\<lparr> requiredDocs := select_required_documents b assetId \<rparr>)"

definition fetchRequiredDocuments2 ::
  "Env \<Rightarrow> Backend \<Rightarrow> string \<Rightarrow> UserDashboard \<Rightarrow> UserDashboard" where
  "fetchRequiredDocuments2 env b assetId st =
     (if fails env Select_required_documents then st
      else st\<lparr> requiredDocs := select_required_documents b assetId \<rparr>)"

definition image_urls :: "Env \<Rightarrow> Backend \<Rightarrow> string \<Rightarrow> string list" where
  "image_urls env b assetId =
     map (\<lambda>name. public_prefix env @ assetId @ ''/'' @ name) (storage_list b (assetId @ ''/''))"

definition fetchAssetImages1 ::
  "Env \<Rightarrow> Backend \<Rightarrow> string \<Rightarrow> UserDashboard \<Rightarrow> UserDashboard" where
  "fetchAssetImages1 env b assetId st =
     (if fails env Storage_list then st\<lparr> assetImages := [] \<rparr>
      else st\<lparr> assetImages := image_urls env b assetId, currentImageIndex := 0 \<rparr>)"

definition fetchAssetImages2 ::
  "Env \<Rightarrow> Backend \<Rightarrow> string \<Rightarrow> UserDashboard \<Rightarrow> UserDashboard" where
  "fetchAssetImages2 env b assetId st =
     (if fails env Storage_list then st\<lparr> assetImages := [], currentImageIndex := 0 \<rparr>
      else st\<lparr> assetImages := image_urls env b assetId, currentImageIndex := 0 \<rparr>)"

subsection \<open>The status evaluation\<close>

text \<open>
  Both files first call \<open>fetchRequiredDocuments\<close> and \<open>fetchAssetImages\<close>, which
  set the state, and then test \<open>requiredDocs\<close> and \<open>assetImages\<close>. The
  store-then-verify file computes the test twice; the first result (\<open>docs\<close>,
  \<open>allDocsUploaded\<close>, \<open>enoughImages\<close>) is not used. The only write is
  \<open>update({ status: "pending" })\<close> on the selected asset.
\<close>

definition checkAndSetPendingStatus1 ::
  "Env \<Rightarrow> UserDashboard \<Rightarrow> Backend \<times> UserDashboard \<Rightarrow> Backend \<times> UserDashboard" where
  "checkAndSetPendingStatus1 env cl bs =
     (case bs of (b, st) \<Rightarrow>
        (case selectedAsset cl of
           None \<Rightarrow> (b, st)
         | Some sel \<Rightarrow>
             (let st1 = fetchRequiredDocuments1 env b (a_id sel) st;
                  st2 = fetchAssetImages1 env b (a_id sel) st1;
                  docsFromState = requiredDocs cl;
                  allUploadedFromState =
                    (if length docsFromState > 0 then list_all is_uploaded docsFromState
                     else False);
                  enoughImagesFromState = (length (assetImages cl) \<ge> length docsFromState)
              in if allUploadedFromState \<and> enoughImagesFromState
                 then (if fails env Update_asset_status then (b, st2)
                       else (update_status (a_id sel) Pending b, st2))
                 else (b, st2))))"

definition checkAndSetPendingStatus2 ::
  "Env \<Rightarrow> UserDashboard \<Rightarrow> Backend \<times> UserDashboard \<Rightarrow> Backend \<times> UserDashboard" where
  "checkAndSetPendingStatus2 env cl bs =
     (case bs of (b, st) \<Rightarrow>
        (case selectedAsset cl of
           None \<Rightarrow> (b, st)
         | Some sel \<Rightarrow>
             (let st1 = fetchRequiredDocuments2 env b (a_id sel) st;
                  st2 = fetchAssetImages2 env b (a_id sel) st1;
                  allDocsUploaded =
                    (length (requiredDocs cl) > 0 \<and> list_all is_uploaded (requiredDocs cl));
                  enoughImages = (length (assetImages cl) \<ge> length (requiredDocs cl))
              in if allDocsUploaded \<and> enoughImages
                 then (if fails env Update_asset_status then (b, st2)
                       else (update_status (a_id sel) Pending b, st2))
                 else (b, st2))))"

subsection \<open>The checklist\<close>

definition handleDocumentCheck1 ::
  "Env \<Rightarrow> UserDashboard \<Rightarrow> string \<Rightarrow> bool \<Rightarrow> Backend \<times> UserDashboard
     \<Rightarrow> Backend \<times> UserDashboard" where
  "handleDocumentCheck1 env cl docId newValue bs =
     (case bs of (b, st) \<Rightarrow>
        if fails env Update_required_documents then (b, st)
        else
          (let b' = b\<lparr> required_documents :=
                         map (toggle_doc docId newValue (toISOString env))
                             (required_documents b) \<rparr>;
               st' = st\<lparr> requiredDocs :=
                           map (toggle_doc docId newValue (toISOString env))
                               (requiredDocs st) \<rparr>
           in checkAndSetPendingStatus1 env cl (b', st')))"

definition handleDocumentCheck2 ::
  "Env \<Rightarrow> UserDashboard \<Rightarrow> string \<Rightarrow> bool \<Rightarrow> Backend \<times> UserDashboard
     \<Rightarrow> Backend \<times> UserDashboard" where
  "handleDocumentCheck2 env cl docId newValue bs =
     (case bs of (b, st) \<Rightarrow>
        if fails env Update_required_documents then (b, st)
        else
          (let b' = b\<lparr> required_documents :=
                         map (toggle_doc docId newValue (toISOString env))
                             (required_documents b) \<rparr>;
               st' = st\<lparr> requiredDocs :=
                           map (toggle_doc docId newValue (toISOString env))
                               (requiredDocs st) \<rparr>
           in checkAndSetPendingStatus2 env cl (b', st')))"

subsection \<open>Deleting an image\<close>

definition handleDeleteImage1 ::
  "Env \<Rightarrow> UserDashboard \<Rightarrow> string \<Rightarrow> Backend \<times> UserDashboard
     \<Rightarrow> Backend \<times> UserDashboard" where
  "handleDeleteImage1 env cl publicUrl bs =
     (case bs of (b, st) \<Rightarrow>
        (case selectedAsset cl of
           None \<Rightarrow> (b, st)
         | Some sel \<Rightarrow>
             (let parts = split publicUrl ''/asset-images/''
              in if length parts < 2 then (b, st)
                 else
                   (let pathWithQuery = parts ! 1;
                        path = hd (split pathWithQuery ''?'')
                    in if fails env Storage_remove then (b, st)
                       else
                         (let b' = storage_remove path b;
                              st' = fetchAssetImages1 env b' (a_id sel) st
                          in checkAndSetPendingStatus1 env cl (b', st'))))))"

definition handleDeleteImage2 ::
  "Env \<Rightarrow> UserDashboard \<Rightarrow> string \<Rightarrow> Backend \<times> UserDashboard
     \<Rightarrow> Backend \<times> UserDashboard" where
  "handleDeleteImage2 env cl publicUrl bs =
     (case bs of (b, st) \<Rightarrow>
        (case selectedAsset cl of
           None \<Rightarrow> (b, st)
         | Some sel \<Rightarrow>
             (let parts = split publicUrl ''/asset-images/''
              in if length parts < 2 then (b, st)
                 else
                   (let path = hd (split (parts ! 1) ''?'');
                        b' = (if fails env Storage_remove then b else storage_remove path b);
                        st' = fetchAssetImages2 env b' (a_id sel) st
                    in checkAndSetPendingStatus2 env cl (b', st')))))"


subsection \<open>Uploading an image\<close>

text \<open>What the handler tells the user when it ends.\<close>

datatype upload_alert = Upload_failed | Verification_failed | Image_rejected | Image_accepted

definition file_path :: "Env \<Rightarrow> string \<Rightarrow> string" where
  "file_path env assetId = assetId @ ''/'' @ Date_now env @ ''.jpg''"

definition address_of :: "Env \<Rightarrow> rat option \<Rightarrow> rat option \<Rightarrow> string option" where
  "address_of env lat lon =
     (case lat of
        None \<Rightarrow> None
      | Some la \<Rightarrow>
          (case lon of None \<Rightarrow> None | Some lo \<Rightarrow> Some (getAddressFromCoords env la lo)))"

text \<open>
  Store-then-verify: the image is uploaded (a second time with \<open>upsert: true\<close> when the
  first upload fails, which it also does when the path is taken), then verified by its
  public URL, and removed again on a rejection. The result of that removal is not
  looked at.
\<close>

definition uploadImageToSupabase1 ::
  "Env \<Rightarrow> UserDashboard \<Rightarrow> string \<Rightarrow> string \<Rightarrow> rat option \<Rightarrow> rat option
     \<Rightarrow> Backend \<times> UserDashboard \<Rightarrow> upload_alert \<times> Backend \<times> UserDashboard" where
  "uploadImageToSupabase1 env cl assetId blob lat lon bs =
     (case bs of (b, st) \<Rightarrow>
        (let filePath = file_path env assetId;
             uploadError = (fails env Storage_upload \<or> filePath \<in> set (asset_images b))
         in if uploadError \<and> fails env Storage_upsert then (Upload_failed, b, st)
            else
              (let b1 = storage_put filePath b;
                   image_url = getPublicUrl env filePath;
                   verification =
                     verifyImage
                       (ai_backend env
                          (Image_url image_url
                             (case selectedAsset cl of None \<Rightarrow> [] | Some sel \<Rightarrow> a_id sel)))
               in if \<not> is_real verification
                  then (Image_rejected,
                        (if fails env Storage_remove then b1 else storage_remove filePath b1),
                        st)
                  else
                    (let address = address_of env lat lon;
                         b2 = (if fails env Update_asset_preview then b1
                               else update_preview assetId image_url lat lon address b1);
                         st' = fetchAssetImages1 env b2 assetId st
                     in (Image_accepted, checkAndSetPendingStatus1 env cl (b2, st'))))))"

text \<open>
  Verify-then-store: the image is sent to the verifier first and uploaded only when
  the answer is \<open>is_real === true\<close>. An exception (from \<open>fetch\<close>, from \<open>json()\<close>, from
  reading a \<open>null\<close> body) ends in the \<open>catch\<close> block.
\<close>

definition uploadImageToSupabase2 ::
  "Env \<Rightarrow> UserDashboard \<Rightarrow> string \<Rightarrow> string \<Rightarrow> rat option \<Rightarrow> rat option
     \<Rightarrow> Backend \<times> UserDashboard \<Rightarrow> upload_alert \<times> Backend \<times> UserDashboard" where
  "uploadImageToSupabase2 env cl assetId blob lat lon bs =
     (case bs of (b, st) \<Rightarrow>
        (let filePath = file_path env assetId
         in case ai_backend env (Image_base64 blob assetId) of
              FetchThrows \<Rightarrow> (Upload_failed, b, st)
            | Response code body \<Rightarrow>
                if \<not> res_ok code then (Verification_failed, b, st)
                else
                  (case body of
                     None \<Rightarrow> (Upload_failed, b, st)
                   | Some verifyJson \<Rightarrow>
                       (case decodeVerifyJson verifyJson of
                          None \<Rightarrow> (Upload_failed, b, st)
                        | Some verification \<Rightarrow>
                            if \<not> is_real verification then (Image_rejected, b, st)
                            else if fails env Storage_upload \<or> filePath \<in> set (asset_images b)
                            then (Upload_failed, b, st)
                            else
                              (let b1 = storage_put filePath b;
                                   image_url = getPublicUrl env filePath;
                                   address = address_of env lat lon;
                                   b2 = (if fails env Update_asset_preview then b1
                                         else update_preview assetId image_url lat lon
                                                address b1);
                                   st' = fetchAssetImages2 env b2 assetId st
                               in (Image_accepted,
                                   checkAndSetPendingStatus2 env cl (b2, st')))))))"

text \<open>
  The coordinates that \<open>handleGalleryUpload\<close> and \<open>handleDrop\<close> of the
  store-then-verify file pass on: those of the EXIF block if the image has one, else
  the device's position, else \<open>(0, 0)\<close>.
\<close>

definition gallery_coordinates :: "(rat \<times> rat) option \<Rightarrow> JpegDataUrl \<Rightarrow> rat \<times> rat" where
  "gallery_coordinates position dataUrl =
     (case exifLatLon dataUrl of
        Some p \<Rightarrow> p
      | None \<Rightarrow> (case position of Some p \<Rightarrow> p | None \<Rightarrow> (0, 0)))"

section \<open>The reviewer's dashboard\<close>

text \<open>
  \<open>assetDetails\<close> is the asset as \<open>fetchAssetDetails\<close> read it (four columns) with its
  documents. \<open>selectedUser\<close> holds the id of the clicked user, the only column read.
\<close>

record AssetDetails =
  ad_id :: string
  ad_asset_name :: string
  ad_issued_date :: "string option"
  ad_status :: asset_status
  documents :: "RequiredDoc list"

record BankAdminDashboard =
  selectedUser :: "string option"
  assetDetails :: "AssetDetails option"
  reviewImages :: "string list"
  reviewImageIndex :: nat

text \<open>\<open>.eq("user_id", userId).single()\<close>: the row, if there is exactly one.\<close>

definition select_asset_single :: "Env \<Rightarrow> Backend \<Rightarrow> string \<Rightarrow> Asset option" where
  "select_asset_single env b userId =
     (if fails env Select_asset_single then None
      else (case filter (\<lambda>a. user_id a = Some userId) (assets b) of
              [a] \<Rightarrow> Some a
            | _ \<Rightarrow> None))"

definition fetchAssetDetails ::
  "Env \<Rightarrow> Backend \<Rightarrow> string \<Rightarrow> BankAdminDashboard \<Rightarrow> BankAdminDashboard" where
  "fetchAssetDetails env b userId st =
     (case select_asset_single env b userId of
        None \<Rightarrow> st
      | Some asset \<Rightarrow>
          (let docs = (if fails env Select_asset_documents then []
                       else select_required_documents b (a_id asset));
               imageList = (if status asset = Pending
                            then (if fails env Storage_list then []
                                  else image_urls env b (a_id asset))
                            else [])
           in st\<lparr> assetDetails :=
                     Some \<lparr> ad_id = a_id asset, ad_asset_name = asset_name asset,
                            ad_issued_date = issued_date asset, ad_status = status asset,
                            documents = docs \<rparr>,
                   reviewImages := imageList,
                   reviewImageIndex := 0 \<rparr>))"

definition handleUserClick ::
  "Env \<Rightarrow> string \<Rightarrow> Backend \<times> BankAdminDashboard \<Rightarrow> Backend \<times> BankAdminDashboard" where
  "handleUserClick env userId bs =
     (case bs of (b, st) \<Rightarrow> (b, fetchAssetDetails env b userId (st\<lparr> selectedUser := Some userId \<rparr>)))"

text \<open>
  \<open>handleStatusUpdate\<close> reads \<open>assetDetails\<close> of the render whose button was clicked
  (\<open>cl\<close>), writes the status of the asset with that id and closes the popup.
\<close>

definition handleStatusUpdate ::
  "Env \<Rightarrow> BankAdminDashboard \<Rightarrow> asset_status \<Rightarrow> Backend \<times> BankAdminDashboard
     \<Rightarrow> Backend \<times> BankAdminDashboard" where
  "handleStatusUpdate env cl newStatus bs =
     (case bs of (b, st) \<Rightarrow>
        (case assetDetails cl of
           None \<Rightarrow> (b, st)
         | Some details \<Rightarrow>
             ((if fails env Update_status_by_reviewer then b
               else update_status (ad_id details) newStatus b),
              st\<lparr> selectedUser := None \<rparr>)))"

text \<open>
  What the component renders: the popup when \<open>selectedUser && assetDetails\<close>, and in
  it the Grant and Non-Grant buttons when \<open>assetDetails.status === "pending"\<close>.
\<close>

definition popup_rendered :: "BankAdminDashboard \<Rightarrow> bool" where
  "popup_rendered st = (selectedUser st \<noteq> None \<and> assetDetails st \<noteq> None)"

definition grant_buttons_rendered :: "BankAdminDashboard \<Rightarrow> bool" where
  "grant_buttons_rendered st =
     (popup_rendered st \<and>
      (case assetDetails st of None \<Rightarrow> False | Some details \<Rightarrow> ad_status details = Pending))"

text \<open>
  The reviewer's actions. An action is possible only on what is rendered: a user row
  while the popup is closed, the popup's buttons while it is open. Each handler runs
  to its end before the next action.
\<close>

datatype reviewer_action = Click_user string | Click_close | Click_grant | Click_non_grant

fun reviewer_step ::
  "Env \<Rightarrow> reviewer_action \<Rightarrow> Backend \<times> BankAdminDashboard
     \<Rightarrow> (Backend \<times> BankAdminDashboard) option" where
  "reviewer_step env (Click_user userId) (b, st) =
     (if popup_rendered st then None else Some (handleUserClick env userId (b, st)))"
| "reviewer_step env Click_close (b, st) =
     (if popup_rendered st then Some (b, st\<lparr> selectedUser := None \<rparr>) else None)"
| "reviewer_step env Click_grant (b, st) =
     (if grant_buttons_rendered st then Some (handleStatusUpdate env st Authenticated (b, st))
      else None)"
| "reviewer_step env Click_non_grant (b, st) =
     (if grant_buttons_rendered st then Some (handleStatusUpdate env st NonVerified (b, st))
      else None)"

fun reviewer_run ::
  "Env \<Rightarrow> reviewer_action list \<Rightarrow> Backend \<times> BankAdminDashboard
     \<Rightarrow> (Backend \<times> BankAdminDashboard) option" where
  "reviewer_run env [] bs = Some bs"
| "reviewer_run env (act # acts) bs =
     (case reviewer_step env act bs of
        None \<Rightarrow> None
      | Some bs' \<Rightarrow> reviewer_run env acts bs')"

definition initial_review :: BankAdminDashboard where
  "initial_review =
     \<lparr> selectedUser = None, assetDetails = None, reviewImages = [], reviewImageIndex = 0 \<rparr>"


section \<open>Notions used in the statements\<close>

text \<open>
  \<open>openAssetDialog\<close>: selecting an asset reads its images and its documents into the
  component state.
\<close>

definition openAssetDialog1 :: "Env \<Rightarrow> Asset \<Rightarrow> Backend \<times> UserDashboard \<Rightarrow> Backend \<times> UserDashboard" where
  "openAssetDialog1 env asset bs =
     (case bs of (b, st) \<Rightarrow>
        (b, fetchRequiredDocuments1 env b (a_id asset)
              (fetchAssetImages1 env b (a_id asset) (st\<lparr> selectedAsset := Some asset \<rparr>))))"

definition openAssetDialog2 :: "Env \<Rightarrow> Asset \<Rightarrow> Backend \<times> UserDashboard \<Rightarrow> Backend \<times> UserDashboard" where
  "openAssetDialog2 env asset bs =
     (case bs of (b, st) \<Rightarrow>
        (b, fetchRequiredDocuments2 env b (a_id asset)
              (fetchAssetImages2 env b (a_id asset) (st\<lparr> selectedAsset := Some asset \<rparr>))))"

text \<open>
  The condition under which the evaluation writes, on the lists of the state it
  reads: at least one document, all of them uploaded, and at least as many images as
  documents.
\<close>

definition pending_guard :: "UserDashboard \<Rightarrow> bool" where
  "pending_guard cl =
     (requiredDocs cl \<noteq> [] \<and> list_all is_uploaded (requiredDocs cl)
      \<and> length (requiredDocs cl) \<le> length (assetImages cl))"

text \<open>
  The condition in the words of the specification, on the store itself: every
  required document of the asset is uploaded, and the asset has at least as many
  stored images as required documents.
\<close>

definition spec_pending_condition :: "Backend \<Rightarrow> string \<Rightarrow> bool" where
  "spec_pending_condition b assetId =
     (list_all is_uploaded (select_required_documents b assetId)
      \<and> length (select_required_documents b assetId) \<le> length (storage_list b (assetId @ ''/'')))"

text \<open>
  The inverse of \<open>degToRationalArray\<close> in the words of the specification: degrees
  plus minutes over 60 plus seconds over 3600, each of the three read as the rational
  that its pair denotes.
\<close>

definition spec_rationalsToDeg :: "dms \<Rightarrow> rat" where
  "spec_rationalsToDeg arr =
     (case arr of ((d0, d1), (m0, m1), (s0, s1)) \<Rightarrow>
        of_int d0 / of_int d1 + (of_int m0 / of_int m1) / 60 + (of_int s0 / of_int s1) / 3600)"

text \<open>
  Between two states of the store, row by row: a status is as before or has become
  "pending".
\<close>

definition only_pending_written :: "Backend \<Rightarrow> Backend \<Rightarrow> bool" where
  "only_pending_written b b' =
     list_all2 (\<lambda>s s'. s' = s \<or> s' = Pending) (map status (assets b)) (map status (assets b'))"

text \<open>The four preview fields of an asset row.\<close>

definition preview :: "Asset \<Rightarrow> string option \<times> rat option \<times> rat option \<times> string option" where
  "preview a = (image_url a, latitude a, longitude a, location_address a)"

text \<open>The persisted statuses of the rows with a given asset id.\<close>

definition status_of :: "Backend \<Rightarrow> string \<Rightarrow> asset_status list" where
  "status_of b assetId = map status (filter (\<lambda>a. a_id a = assetId) (assets b))"

text \<open>The statuses of an asset's rows after a run of reviewer actions.\<close>

definition status_after ::
  "Env \<Rightarrow> reviewer_action list \<Rightarrow> Backend \<times> BankAdminDashboard \<Rightarrow> string
     \<Rightarrow> asset_status list option" where
  "status_after env acts bs assetId =
     (case reviewer_run env acts bs of
        None \<Rightarrow> None
      | Some (b, st) \<Rightarrow> Some (status_of b assetId))"

section \<open>Example states\<close>

text \<open>An outside world in which no call fails and the verifier cannot be reached.\<close>

definition env0 :: Env where
  "env0 =
     \<lparr> fails = (\<lambda>c. False),
       VITE_SUPABASE_URL = ''https://x.co'',
       Date_now = ''17'',
       toISOString = ''2025-01-01T00:00:00.000Z'',
       ai_backend = (\<lambda>req. FetchThrows),
       nominatim = (\<lambda>lat lon. None) \<rparr>"


definition dashboard0 :: UserDashboard where
  "dashboard0 =
     \<lparr> selectedAsset = None, assetImages = [], currentImageIndex = 0, requiredDocs = [] \<rparr>"

text \<open>A verifier that accepts every image, in the canonical field names.\<close>

definition env_accept :: Env where
  "env_accept =
     env0\<lparr> ai_backend :=
             \<lambda>req. Response 200
                     (Some (JObj [(''is_real'', JBool True),
                                  (''authenticity_score'', JNum (9 / 10))])) \<rparr>"

text \<open>A verifier that rejects every image with the score 0.2.\<close>

definition rejecting_answer :: jsval where
  "rejecting_answer = JObj [(''is_real'', JBool False), (''authenticity_score'', JNum (2 / 10))]"

definition env_reject :: Env where
  "env_reject = env0\<lparr> ai_backend := \<lambda>req. Response 200 (Some rejecting_answer) \<rparr>"

text \<open>The same verifier, and a store whose \<open>remove\<close> fails.\<close>

definition env_reject_keep :: Env where
  "env_reject_keep = env_reject\<lparr> fails := (\<lambda>c. c = Storage_remove) \<rparr>"


definition asset1 :: Asset where
  "asset1 =
     \<lparr> a_id = ''a1'', asset_name = ''Tractor Loan'', status = NonVerified,
       issued_date = Some ''2025-01-01'', user_id = Some ''u1'', image_url = None,
       latitude = None, longitude = None, location_address = None,
       created_at = Some ''2025-01-01T00:00:00.000Z'', verified_at = None \<rparr>"

definition doc1 :: RequiredDoc where
  "doc1 =
     \<lparr> doc_id = ''d1'', asset_id = ''a1'', document_name = ''Aadhaar Card'',
       is_uploaded = True, uploaded_at = Some ''2025-01-01T00:00:00.000Z'' \<rparr>"

definition doc2 :: RequiredDoc where
  "doc2 =
     \<lparr> doc_id = ''d2'', asset_id = ''a1'', document_name = ''Land Proof'',
       is_uploaded = False, uploaded_at = None \<rparr>"

text \<open>An asset without required documents and without images, opened in the dashboard.\<close>

definition backend_nodocs :: Backend where
  "backend_nodocs = \<lparr> assets = [asset1], required_documents = [], asset_images = [] \<rparr>"

definition dashboard_nodocs :: UserDashboard where
  "dashboard_nodocs =
     \<lparr> selectedAsset = Some asset1, assetImages = [], currentImageIndex = 0,
       requiredDocs = [] \<rparr>"

text \<open>
  A pending asset with one required document, which is uploaded, and one stored
  image, opened in the dashboard.
\<close>

definition image1_url :: string where
  "image1_url = ''https://x.co/storage/v1/object/public/asset-images/a1/16.jpg''"

definition backend_pending :: Backend where
  "backend_pending =
     \<lparr> assets = [asset1\<lparr> status := Pending \<rparr>], required_documents = [doc1],
       asset_images = [''a1/16.jpg''] \<rparr>"

definition dashboard_pending :: UserDashboard where
  "dashboard_pending =
     \<lparr> selectedAsset = Some (asset1\<lparr> status := Pending \<rparr>), assetImages = [image1_url],
       currentImageIndex = 0, requiredDocs = [doc1] \<rparr>"

text \<open>
  The asset with two required documents, both uploaded, and one stored image, opened
  in the dashboard.
\<close>

definition doc2_uploaded :: RequiredDoc where
  "doc2_uploaded = doc2\<lparr> is_uploaded := True, uploaded_at := Some ''2025-01-01T00:00:00.000Z'' \<rparr>"

definition backend_both_uploaded :: Backend where
  "backend_both_uploaded =
     \<lparr> assets = [asset1], required_documents = [doc1, doc2_uploaded],
       asset_images = [''a1/16.jpg''] \<rparr>"

definition dashboard_both_uploaded :: UserDashboard where
  "dashboard_both_uploaded =
     \<lparr> selectedAsset = Some asset1, assetImages = [image1_url], currentImageIndex = 0,
       requiredDocs = [doc1, doc2_uploaded] \<rparr>"




text \<open>
  A second asset, of another user, without required documents and with one stored
  image, beside the first asset with its uploaded document and its image; and an
  outside world in which reading the documents fails.
\<close>

definition asset2 :: Asset where
  "asset2 =
     \<lparr> a_id = ''a2'', asset_name = ''Pump Loan'', status = NonVerified,
       issued_date = Some ''2025-01-01'', user_id = Some ''u2'', image_url = None,
       latitude = None, longitude = None, location_address = None,
       created_at = Some ''2025-01-01T00:00:00.000Z'', verified_at = None \<rparr>"

definition backend_two_assets :: Backend where
  "backend_two_assets =
     \<lparr> assets = [asset1, asset2], required_documents = [doc1],
       asset_images = [''a1/16.jpg'', ''a2/15.jpg''] \<rparr>"

definition env_documents_fail :: Env where
  "env_documents_fail = env0\<lparr> fails := (\<lambda>c. c = Select_required_documents) \<rparr>"

text \<open>A verifier answer in the older field names only.\<close>

definition legacy_answer :: jsval where
  "legacy_answer = JObj [(''valid'', JBool True), (''score'', JNum (9 / 10))]"

section \<open>Geotag round trip\<close>

lemma degToRationalArray_lat_example:
  "degToRationalArray (129716 / 10000) = ((12, 1), (58, 1), (1776, 100))"
  by code_simp

lemma degToRationalArray_lon_example:
  "degToRationalArray (775946 / 10000) = ((77, 1), (35, 1), (4056, 100))"
  by code_simp

text \<open>
  The rounding of doubles shows in the pairs: 2.3 is embedded as 2 deg 17 min
  6000/100 s, where exact arithmetic would give 18 min 0 s.
\<close>

lemma degToRationalArray_rounding_example:
  "degToRationalArray (23 / 10) = ((2, 1), (17, 1), (6000, 100))"
  by code_simp

text \<open>
  The embedding itself is right at these positions: read back as the specification
  describes, each pair as the rational it denotes, the three pairs give the magnitude
  of the coordinate, and the hemisphere reference gives back its sign.
\<close>

lemma embedding_read_as_rationals:
  "spec_rationalsToDeg (degToRationalArray (129716 / 10000)) = 129716 / 10000"
  "spec_rationalsToDeg (degToRationalArray (775946 / 10000)) = 775946 / 10000"
  "spec_rationalsToDeg (degToRationalArray (23 / 10)) = 23 / 10"
  unfolding degToRationalArray_lat_example degToRationalArray_lon_example
    degToRationalArray_rounding_example spec_rationalsToDeg_def
  by simp_all

lemma embedding_hemisphere:
  "\<bar>lat\<bar> * (if GPSLatitudeRef (getGpsIfd lat lon) = ''S'' then -1 else 1) = lat"
  "\<bar>lon\<bar> * (if GPSLongitudeRef (getGpsIfd lat lon) = ''W'' then -1 else 1) = lon"
  by (simp_all add: getGpsIfd_def)

text \<open>
  C2. The claim: coordinates that are embedded and then extracted come back within
  about 0.00001 degrees. The position 12.9716 N, 77.5946 E is embedded as
  12 deg 58 min 1776/100 s and 77 deg 35 min 4056/100 s. The extraction divides the
  numerator 1776 (and 4056) by 3600 without its denominator 100, and returns
  13.46 and 78.71: about half a degree and more than one degree away. These are the
  coordinates that the gallery upload passes on, whatever the device's position.
\<close>

theorem geotag_roundtrip_off_by_denominator:
  "exifLatLon (insertExifIntoJpegDataUrl dataUrl (129716 / 10000) (775946 / 10000))
     = Some (1346 / 100, 7871 / 100)
   \<and> gallery_coordinates position
         (insertExifIntoJpegDataUrl dataUrl (129716 / 10000) (775946 / 10000))
       = (1346 / 100, 7871 / 100)
   \<and> \<bar>1346 / 100 - 129716 / 10000\<bar> > (1 / 100000 :: rat)
   \<and> \<bar>7871 / 100 - 775946 / 10000\<bar> > (1 / 100000 :: rat)"
  unfolding gallery_coordinates_def exifLatLon_def piexif_load_def insertExifIntoJpegDataUrl_def
    getGpsIfd_def degToRationalArray_lat_example degToRationalArray_lon_example
    rationalsToDeg_def
  by simp


section \<open>Decoding the verifier's answer\<close>

text \<open>
  \<open>verifyImage\<close> of the store-then-verify file reads \<open>valid\<close> when \<open>is_real\<close> is not
  a boolean and \<open>score\<close> when \<open>authenticity_score\<close> is not a number.
\<close>

lemma verifyImage_reads_valid:
  "js_prop json ''is_real'' = JUndefined \<Longrightarrow> js_prop json ''valid'' = JBool v \<Longrightarrow>
     \<not> throws_on_property_read json \<Longrightarrow>
     is_real (verifyImage (Response 200 (Some json))) = v"
  by (simp add: verifyImage_def res_ok_def)

lemma verifyImage_reads_score:
  "js_prop json ''authenticity_score'' = JUndefined \<Longrightarrow> js_prop json ''score'' = JNum x \<Longrightarrow>
     \<not> throws_on_property_read json \<Longrightarrow>
     authenticity_score (verifyImage (Response 200 (Some json))) = JNum x"
  by (simp add: verifyImage_def res_ok_def js_nullish_def)

text \<open>
  C6. The claim: every 200 response is decoded with the alternate names \<open>valid\<close> and
  \<open>score\<close> accepted too. On the body \<open>{ valid: true, score: 0.9 }\<close> the
  store-then-verify \<open>verifyImage\<close> returns an accept with score 0.9; the decoding of
  the verify-then-store upload reads neither field, takes the image for not real with
  score 0, and the upload ends with a rejection.
\<close>

theorem alternate_names_ignored_by_verify_then_store:
  "verifyImage (Response 200 (Some legacy_answer))
     = \<lparr> is_real = True, authenticity_score = JNum (9 / 10), reason = JStr [] \<rparr>
   \<and> decodeVerifyJson legacy_answer
       = Some \<lparr> is_real = False, authenticity_score = JNum 0, reason = JStr ''Rejected'' \<rparr>
   \<and> uploadImageToSupabase2 (env\<lparr> ai_backend := \<lambda>req. Response 200 (Some legacy_answer) \<rparr>)
         cl assetId blob lat lon (b, st)
       = (Image_rejected, b, st)"
  by (simp add: verifyImage_def decodeVerifyJson_def uploadImageToSupabase2_def legacy_answer_def
        res_ok_def throws_on_property_read_def js_nullish_def js_or_def)


section \<open>What the operations leave alone\<close>

lemma storage_put_tables [simp]:
  "assets (storage_put p b) = assets b"
  "required_documents (storage_put p b) = required_documents b"
  by (simp_all add: storage_put_def)

lemma storage_remove_tables [simp]:
  "assets (storage_remove p b) = assets b"
  "required_documents (storage_remove p b) = required_documents b"
  by (simp_all add: storage_remove_def)

lemma update_status_other [simp]:
  "required_documents (update_status i s b) = required_documents b"
  "asset_images (update_status i s b) = asset_images b"
  by (simp_all add: update_status_def)

lemma update_preview_other [simp]:
  "required_documents (update_preview i u la lo ad b) = required_documents b"
  "asset_images (update_preview i u la lo ad b) = asset_images b"
  by (simp_all add: update_preview_def)

lemma update_status_map:
  assumes "\<And>a s. g (a\<lparr> status := s \<rparr>) = g a"
  shows "map g (assets (update_status i s b)) = map g (assets b)"
  using assms by (simp add: update_status_def)

lemma update_preview_map:
  assumes "\<And>a u la lo ad. g (a\<lparr> image_url := u, latitude := la, longitude := lo,
             location_address := ad \<rparr>) = g a"
  shows "map g (assets (update_preview i u la lo ad b)) = map g (assets b)"
  using assms by (simp add: update_preview_def)

lemma check1_backend:
  "fst (checkAndSetPendingStatus1 env cl (b, st)) =
     (case selectedAsset cl of
        None \<Rightarrow> b
      | Some sel \<Rightarrow>
          if pending_guard cl \<and> \<not> fails env Update_asset_status
          then update_status (a_id sel) Pending b else b)"
  by (auto simp: checkAndSetPendingStatus1_def pending_guard_def Let_def split: option.splits)

lemma check2_backend:
  "fst (checkAndSetPendingStatus2 env cl (b, st)) =
     (case selectedAsset cl of
        None \<Rightarrow> b
      | Some sel \<Rightarrow>
          if pending_guard cl \<and> \<not> fails env Update_asset_status
          then update_status (a_id sel) Pending b else b)"
  by (auto simp: checkAndSetPendingStatus2_def pending_guard_def Let_def split: option.splits)

lemma check_other [simp]:
  "required_documents (fst (checkAndSetPendingStatus1 env cl (b, st))) = required_documents b"
  "asset_images (fst (checkAndSetPendingStatus1 env cl (b, st))) = asset_images b"
  "required_documents (fst (checkAndSetPendingStatus2 env cl (b, st))) = required_documents b"
  "asset_images (fst (checkAndSetPendingStatus2 env cl (b, st))) = asset_images b"
  by (simp_all add: check1_backend check2_backend split: option.splits)

lemma check_map:
  assumes "\<And>a s. g (a\<lparr> status := s \<rparr>) = g a"
  shows "map g (assets (fst (checkAndSetPendingStatus1 env cl (b, st)))) = map g (assets b)"
    and "map g (assets (fst (checkAndSetPendingStatus2 env cl (b, st)))) = map g (assets b)"
  using assms by (simp_all add: check1_backend check2_backend update_status_map split: option.splits)

lemma toggle_map:
  assumes "\<And>a s. g (a\<lparr> status := s \<rparr>) = g a"
  shows "map g (assets (fst (handleDocumentCheck1 env cl docId v (b, st)))) = map g (assets b)"
    and "map g (assets (fst (handleDocumentCheck2 env cl docId v (b, st)))) = map g (assets b)"
  using assms by (simp_all add: handleDocumentCheck1_def handleDocumentCheck2_def Let_def check_map)

lemma delete_map:
  assumes "\<And>a s. g (a\<lparr> status := s \<rparr>) = g a"
  shows "map g (assets (fst (handleDeleteImage1 env cl url (b, st)))) = map g (assets b)"
    and "map g (assets (fst (handleDeleteImage2 env cl url (b, st)))) = map g (assets b)"
  using assms
  by (simp_all add: handleDeleteImage1_def handleDeleteImage2_def Let_def check_map
        split: option.splits)

lemma upload_map:
  assumes "\<And>a s. g (a\<lparr> status := s \<rparr>) = g a"
    and "\<And>a u la lo ad. g (a\<lparr> image_url := u, latitude := la, longitude := lo,
             location_address := ad \<rparr>) = g a"
  shows "map g (assets (fst (snd (uploadImageToSupabase1 env cl assetId blob lat lon (b, st)))))
           = map g (assets b)"
    and "map g (assets (fst (snd (uploadImageToSupabase2 env cl assetId blob lat lon (b, st)))))
           = map g (assets b)"
  using assms
  by (simp_all add: uploadImageToSupabase1_def uploadImageToSupabase2_def Let_def check_map
        update_preview_map split: option.splits http_outcome.splits)

lemma status_update_map:
  assumes "\<And>a s. g (a\<lparr> status := s \<rparr>) = g a"
  shows "map g (assets (fst (handleStatusUpdate env cl newStatus (b, st)))) = map g (assets b)"
  using assms by (simp add: handleStatusUpdate_def update_status_map split: option.splits)

text \<open>
  C10. A grant or reject decision (\<open>handleStatusUpdate\<close>) changes no asset field but
  \<open>status\<close>: the asset rows with their status overwritten by any one value are the
  same before and after, so in particular \<open>verified_at\<close> and the four preview fields
  (\<open>image_url\<close>, \<open>latitude\<close>, \<open>longitude\<close>, \<open>location_address\<close>) are; the documents
  and the stored images are untouched. No operation of either dashboard writes
  \<open>verified_at\<close>.
\<close>

theorem reviewer_decision_writes_status_only:
  "map (\<lambda>a. a\<lparr> status := s0 \<rparr>) (assets (fst (handleStatusUpdate env rv newStatus (b, rs))))
     = map (\<lambda>a. a\<lparr> status := s0 \<rparr>) (assets b)
   \<and> map verified_at (assets (fst (handleStatusUpdate env rv newStatus (b, rs))))
       = map verified_at (assets b)
   \<and> map preview (assets (fst (handleStatusUpdate env rv newStatus (b, rs))))
       = map preview (assets b)
   \<and> required_documents (fst (handleStatusUpdate env rv newStatus (b, rs))) = required_documents b
   \<and> asset_images (fst (handleStatusUpdate env rv newStatus (b, rs))) = asset_images b
   \<and> map verified_at (assets (fst (handleUserClick env userId (b, rs)))) = map verified_at (assets b)
   \<and> map verified_at (assets (fst (checkAndSetPendingStatus1 env cl (b, st))))
       = map verified_at (assets b)
   \<and> map verified_at (assets (fst (checkAndSetPendingStatus2 env cl (b, st))))
       = map verified_at (assets b)
   \<and> map verified_at (assets (fst (handleDocumentCheck1 env cl docId v (b, st))))
       = map verified_at (assets b)
   \<and> map verified_at (assets (fst (handleDocumentCheck2 env cl docId v (b, st))))
       = map verified_at (assets b)
   \<and> map verified_at (assets (fst (handleDeleteImage1 env cl url (b, st))))
       = map verified_at (assets b)
   \<and> map verified_at (assets (fst (handleDeleteImage2 env cl url (b, st))))
       = map verified_at (assets b)
   \<and> map verified_at
         (assets (fst (snd (uploadImageToSupabase1 env cl assetId blob lat lon (b, st)))))
       = map verified_at (assets b)
   \<and> map verified_at
         (assets (fst (snd (uploadImageToSupabase2 env cl assetId blob lat lon (b, st)))))
       = map verified_at (assets b)"
  by (simp add: status_update_map check_map toggle_map delete_map upload_map preview_def
        handleUserClick_def)
   (simp add: handleStatusUpdate_def split: option.splits)

section \<open>The status evaluation\<close>

lemma check_without_documents:
  assumes "requiredDocs cl = []"
  shows "fst (checkAndSetPendingStatus1 env cl (b, st)) = b"
    and "fst (checkAndSetPendingStatus2 env cl (b, st)) = b"
  using assms
  by (simp_all add: check1_backend check2_backend pending_guard_def split: option.splits)

lemma handlers_without_documents:
  assumes "requiredDocs cl = []"
  shows "assets (fst (handleDocumentCheck1 env cl docId v (b, st))) = assets b"
    and "assets (fst (handleDocumentCheck2 env cl docId v (b, st))) = assets b"
    and "assets (fst (handleDeleteImage1 env cl url (b, st))) = assets b"
    and "assets (fst (handleDeleteImage2 env cl url (b, st))) = assets b"
    and "map status (assets (fst (snd (uploadImageToSupabase1 env cl assetId blob lat lon (b, st)))))
           = map status (assets b)"
    and "map status (assets (fst (snd (uploadImageToSupabase2 env cl assetId blob lat lon (b, st)))))
           = map status (assets b)"
  using assms
  by (simp_all add: handleDocumentCheck1_def handleDocumentCheck2_def handleDeleteImage1_def
        handleDeleteImage2_def uploadImageToSupabase1_def uploadImageToSupabase2_def Let_def
        check_without_documents update_preview_map
        split: option.splits http_outcome.splits)

lemma open_dialog_without_documents:
  assumes "select_required_documents b (a_id asset) = []"
  shows "requiredDocs (snd (openAssetDialog1 env asset (b, st))) = []"
    and "\<not> fails env Select_required_documents \<Longrightarrow>
         requiredDocs (snd (openAssetDialog2 env asset (b, st))) = []"
  using assms
  by (simp_all add: openAssetDialog1_def openAssetDialog2_def fetchRequiredDocuments1_def
        fetchRequiredDocuments2_def)

text \<open>
  The guard of the evaluation is on the document list that the component holds: when
  that list is empty, the evaluation writes nothing, and a checklist toggle, an image
  deletion and an upload leave every asset's status as it was. Opening the dialog of
  an asset without required documents gives the empty list, in the verify-then-store
  file only if the read of the documents does not fail.
\<close>

lemma guard_on_held_documents:
  "(requiredDocs cl = [] \<longrightarrow>
        fst (checkAndSetPendingStatus1 env cl (b, st)) = b
      \<and> fst (checkAndSetPendingStatus2 env cl (b, st)) = b
      \<and> assets (fst (handleDocumentCheck1 env cl docId v (b, st))) = assets b
      \<and> assets (fst (handleDocumentCheck2 env cl docId v (b, st))) = assets b
      \<and> assets (fst (handleDeleteImage1 env cl url (b, st))) = assets b
      \<and> assets (fst (handleDeleteImage2 env cl url (b, st))) = assets b
      \<and> map status
            (assets (fst (snd (uploadImageToSupabase1 env cl assetId blob lat lon (b, st)))))
          = map status (assets b)
      \<and> map status
            (assets (fst (snd (uploadImageToSupabase2 env cl assetId blob lat lon (b, st)))))
          = map status (assets b))
   \<and> (select_required_documents b (a_id asset) = [] \<longrightarrow>
        requiredDocs (snd (openAssetDialog1 env asset (b, st))) = [])
   \<and> (select_required_documents b (a_id asset) = [] \<and> \<not> fails env Select_required_documents \<longrightarrow>
        requiredDocs (snd (openAssetDialog2 env asset (b, st))) = [])"
  by (simp add: check_without_documents handlers_without_documents
        open_dialog_without_documents)

text \<open>
  C1. The claim: after an accepted upload the persisted status is "pending" if and
  only if, on the counts read fresh from the store, all required documents are
  uploaded and there are at least as many images as documents. An asset has two
  required documents, both uploaded, and one stored image; the dashboard holds
  exactly these lists. A second image is accepted. The store then has two uploaded
  documents and two images, so the condition holds on the store; but the evaluation
  tests the lists of the render that started the upload, with one image against two
  documents, and writes nothing: the status is still "non-verified", in both files.
\<close>

theorem fresh_counts_satisfied_status_not_pending:
  "requiredDocs dashboard_both_uploaded
     = select_required_documents backend_both_uploaded ''a1''
   \<and> assetImages dashboard_both_uploaded = image_urls env_accept backend_both_uploaded ''a1''
   \<and> fst (uploadImageToSupabase1 env_accept dashboard_both_uploaded ''a1'' ''img'' None None
             (backend_both_uploaded, dashboard_both_uploaded)) = Image_accepted
   \<and> select_required_documents
        (fst (snd (uploadImageToSupabase1 env_accept dashboard_both_uploaded ''a1'' ''img''
                     None None (backend_both_uploaded, dashboard_both_uploaded)))) ''a1''
       = [doc1, doc2_uploaded]
   \<and> storage_list
        (fst (snd (uploadImageToSupabase1 env_accept dashboard_both_uploaded ''a1'' ''img''
                     None None (backend_both_uploaded, dashboard_both_uploaded)))) ''a1/''
       = [''16.jpg'', ''17.jpg'']
   \<and> spec_pending_condition
        (fst (snd (uploadImageToSupabase1 env_accept dashboard_both_uploaded ''a1'' ''img''
                     None None (backend_both_uploaded, dashboard_both_uploaded)))) ''a1''
   \<and> status_of
        (fst (snd (uploadImageToSupabase1 env_accept dashboard_both_uploaded ''a1'' ''img''
                     None None (backend_both_uploaded, dashboard_both_uploaded)))) ''a1''
       = [NonVerified]
   \<and> fst (uploadImageToSupabase2 env_accept dashboard_both_uploaded ''a1'' ''img'' None None
             (backend_both_uploaded, dashboard_both_uploaded)) = Image_accepted
   \<and> select_required_documents
        (fst (snd (uploadImageToSupabase2 env_accept dashboard_both_uploaded ''a1'' ''img''
                     None None (backend_both_uploaded, dashboard_both_uploaded)))) ''a1''
       = [doc1, doc2_uploaded]
   \<and> storage_list
        (fst (snd (uploadImageToSupabase2 env_accept dashboard_both_uploaded ''a1'' ''img''
                     None None (backend_both_uploaded, dashboard_both_uploaded)))) ''a1/''
       = [''16.jpg'', ''17.jpg'']
   \<and> spec_pending_condition
        (fst (snd (uploadImageToSupabase2 env_accept dashboard_both_uploaded ''a1'' ''img''
                     None None (backend_both_uploaded, dashboard_both_uploaded)))) ''a1''
   \<and> status_of
        (fst (snd (uploadImageToSupabase2 env_accept dashboard_both_uploaded ''a1'' ''img''
                     None None (backend_both_uploaded, dashboard_both_uploaded)))) ''a1''
       = [NonVerified]"
  by code_simp

text \<open>
  C9. The claim: an asset whose set of required documents is empty is never set to
  "pending" by the evaluation, whatever the number of its images. The dashboard opens
  the first asset, which has one uploaded document, and then the second, which has
  an image and no required document, while the read of the documents fails. In the
  verify-then-store file \<open>fetchRequiredDocuments\<close> then leaves the list as it is, so
  the component holds the first asset's document with the second asset selected. An
  image is accepted for the second asset: the evaluation finds one uploaded document
  and one image, and writes "pending" to the asset without documents. In the
  store-then-verify file the failed read resets the list to empty, and the same steps
  leave the asset "non-verified".
\<close>

theorem asset_without_documents_set_pending:
  "select_required_documents backend_two_assets ''a2'' = []
   \<and> status_of backend_two_assets ''a2'' = [NonVerified]
   \<and> requiredDocs
        (snd (openAssetDialog2 env0 asset1 (backend_two_assets, dashboard0))) = [doc1]
   \<and> selectedAsset
        (snd (openAssetDialog2 env_documents_fail asset2
                (openAssetDialog2 env0 asset1 (backend_two_assets, dashboard0)))) = Some asset2
   \<and> requiredDocs
        (snd (openAssetDialog2 env_documents_fail asset2
                (openAssetDialog2 env0 asset1 (backend_two_assets, dashboard0)))) = [doc1]
   \<and> fst (uploadImageToSupabase2 env_accept
             (snd (openAssetDialog2 env_documents_fail asset2
                     (openAssetDialog2 env0 asset1 (backend_two_assets, dashboard0))))
             ''a2'' ''img'' None None
             (openAssetDialog2 env_documents_fail asset2
                (openAssetDialog2 env0 asset1 (backend_two_assets, dashboard0))))
       = Image_accepted
   \<and> select_required_documents
        (fst (snd (uploadImageToSupabase2 env_accept
                     (snd (openAssetDialog2 env_documents_fail asset2
                             (openAssetDialog2 env0 asset1 (backend_two_assets, dashboard0))))
                     ''a2'' ''img'' None None
                     (openAssetDialog2 env_documents_fail asset2
                        (openAssetDialog2 env0 asset1 (backend_two_assets, dashboard0))))))
        ''a2'' = []
   \<and> status_of
        (fst (snd (uploadImageToSupabase2 env_accept
                     (snd (openAssetDialog2 env_documents_fail asset2
                             (openAssetDialog2 env0 asset1 (backend_two_assets, dashboard0))))
                     ''a2'' ''img'' None None
                     (openAssetDialog2 env_documents_fail asset2
                        (openAssetDialog2 env0 asset1 (backend_two_assets, dashboard0))))))
        ''a2'' = [Pending]
   \<and> requiredDocs
        (snd (openAssetDialog1 env_documents_fail asset2
                (openAssetDialog1 env0 asset1 (backend_two_assets, dashboard0)))) = []
   \<and> status_of
        (fst (snd (uploadImageToSupabase1 env_accept
                     (snd (openAssetDialog1 env_documents_fail asset2
                             (openAssetDialog1 env0 asset1 (backend_two_assets, dashboard0))))
                     ''a2'' ''img'' None None
                     (openAssetDialog1 env_documents_fail asset2
                        (openAssetDialog1 env0 asset1 (backend_two_assets, dashboard0))))))
        ''a2'' = [NonVerified]"
  by code_simp

section \<open>The checklist\<close>

lemma toggle_documents:
  "required_documents (fst (handleDocumentCheck1 env cl docId v (b, st)))
     = (if fails env Update_required_documents then required_documents b
        else map (toggle_doc docId v (toISOString env)) (required_documents b))"
  "required_documents (fst (handleDocumentCheck2 env cl docId v (b, st)))
     = (if fails env Update_required_documents then required_documents b
        else map (toggle_doc docId v (toISOString env)) (required_documents b))"
  by (simp_all add: handleDocumentCheck1_def handleDocumentCheck2_def Let_def)

lemma toggle_images:
  "asset_images (fst (handleDocumentCheck1 env cl docId v (b, st))) = asset_images b"
  "asset_images (fst (handleDocumentCheck2 env cl docId v (b, st))) = asset_images b"
  by (simp_all add: handleDocumentCheck1_def handleDocumentCheck2_def Let_def)

lemma toggle_doc_id [simp]: "doc_id (toggle_doc docId v t d) = doc_id d"
  by (simp add: toggle_doc_def)

lemma toggle_doc_uploaded:
  assumes "d \<in> set (map (toggle_doc docId v t) ds)" and "doc_id d = docId"
  shows "is_uploaded d = v \<and> (uploaded_at d \<noteq> None) = v"
proof -
  from assms(1) obtain d0 where d: "d = toggle_doc docId v t d0" by auto
  with assms(2) have "doc_id d0 = docId" by simp
  with d show ?thesis by (simp add: toggle_doc_def)
qed

lemma toggle_doc_again:
  "map (toggle_doc docId v t2) (map (toggle_doc docId v t1) ds)
     = map (\<lambda>d. if doc_id d = docId
                then d\<lparr> uploaded_at := (if v then Some t2 else None) \<rparr> else d)
         (map (toggle_doc docId v t1) ds)"
  by (simp add: toggle_doc_def)

lemma toggle_doc_absorbs:
  "map (toggle_doc docId v t2) (map (toggle_doc docId v t1) ds) = map (toggle_doc docId v t2) ds"
  by (simp add: toggle_doc_def)

lemma toggle_twice_documents:
  assumes "\<not> fails env1 Update_required_documents" "\<not> fails env2 Update_required_documents"
  shows "required_documents
           (fst (handleDocumentCheck1 env2 cl2 docId v
                   (handleDocumentCheck1 env1 cl1 docId v (b, st))))
         = map (toggle_doc docId v (toISOString env2))
             (map (toggle_doc docId v (toISOString env1)) (required_documents b))"
    and "required_documents
           (fst (handleDocumentCheck2 env2 cl2 docId v
                   (handleDocumentCheck2 env1 cl1 docId v (b, st))))
         = map (toggle_doc docId v (toISOString env2))
             (map (toggle_doc docId v (toISOString env1)) (required_documents b))"
proof -
  obtain b1 st1 where a: "handleDocumentCheck1 env1 cl1 docId v (b, st) = (b1, st1)"
    by (cases "handleDocumentCheck1 env1 cl1 docId v (b, st)")
  have "required_documents b1 = map (toggle_doc docId v (toISOString env1)) (required_documents b)"
    using toggle_documents(1) [of env1 cl1 docId v b st] a assms by simp
  then show "required_documents
           (fst (handleDocumentCheck1 env2 cl2 docId v
                   (handleDocumentCheck1 env1 cl1 docId v (b, st))))
         = map (toggle_doc docId v (toISOString env2))
             (map (toggle_doc docId v (toISOString env1)) (required_documents b))"
    using toggle_documents(1) [of env2 cl2 docId v b1 st1] a assms by simp
next
  obtain b1 st1 where a: "handleDocumentCheck2 env1 cl1 docId v (b, st) = (b1, st1)"
    by (cases "handleDocumentCheck2 env1 cl1 docId v (b, st)")
  have "required_documents b1 = map (toggle_doc docId v (toISOString env1)) (required_documents b)"
    using toggle_documents(2) [of env1 cl1 docId v b st] a assms by simp
  then show "required_documents
           (fst (handleDocumentCheck2 env2 cl2 docId v
                   (handleDocumentCheck2 env1 cl1 docId v (b, st))))
         = map (toggle_doc docId v (toISOString env2))
             (map (toggle_doc docId v (toISOString env1)) (required_documents b))"
    using toggle_documents(2) [of env2 cl2 docId v b1 st1] a assms by simp
qed

text \<open>
  On the documents, two toggles of one item to the same value \<open>v\<close>, both writes
  succeeding, act as the claim describes: after the first toggle and after the second,
  every document with the toggled id has \<open>is_uploaded = v\<close>, and its \<open>uploaded_at\<close>
  is set if and only if \<open>v\<close> is true; the second toggle rewrites nothing but
  \<open>uploaded_at\<close> of the toggled id, and the documents are those that the second
  toggle alone would have left.
\<close>

lemma toggle_twice_on_documents:
  "\<not> fails env1 Update_required_documents \<and> \<not> fails env2 Update_required_documents \<longrightarrow>
     ((\<forall>d \<in> set (required_documents (fst (handleDocumentCheck1 env1 cl1 docId v (b, st)))).
         doc_id d = docId \<longrightarrow> is_uploaded d = v \<and> (uploaded_at d \<noteq> None) = v)
   \<and> (\<forall>d \<in> set (required_documents
                    (fst (handleDocumentCheck1 env2 cl2 docId v
                            (handleDocumentCheck1 env1 cl1 docId v (b, st))))).
         doc_id d = docId \<longrightarrow> is_uploaded d = v \<and> (uploaded_at d \<noteq> None) = v)
   \<and> required_documents
        (fst (handleDocumentCheck1 env2 cl2 docId v
                (handleDocumentCheck1 env1 cl1 docId v (b, st))))
       = map (\<lambda>d. if doc_id d = docId
                  then d\<lparr> uploaded_at := (if v then Some (toISOString env2) else None) \<rparr>
                  else d)
           (required_documents (fst (handleDocumentCheck1 env1 cl1 docId v (b, st))))
   \<and> required_documents
        (fst (handleDocumentCheck1 env2 cl2 docId v
                (handleDocumentCheck1 env1 cl1 docId v (b, st))))
       = required_documents (fst (handleDocumentCheck1 env2 cl2 docId v (b, st)))
   \<and> (\<forall>d \<in> set (required_documents (fst (handleDocumentCheck2 env1 cl1 docId v (b, st)))).
         doc_id d = docId \<longrightarrow> is_uploaded d = v \<and> (uploaded_at d \<noteq> None) = v)
   \<and> (\<forall>d \<in> set (required_documents
                    (fst (handleDocumentCheck2 env2 cl2 docId v
                            (handleDocumentCheck2 env1 cl1 docId v (b, st))))).
         doc_id d = docId \<longrightarrow> is_uploaded d = v \<and> (uploaded_at d \<noteq> None) = v)
   \<and> required_documents
        (fst (handleDocumentCheck2 env2 cl2 docId v
                (handleDocumentCheck2 env1 cl1 docId v (b, st))))
       = map (\<lambda>d. if doc_id d = docId
                  then d\<lparr> uploaded_at := (if v then Some (toISOString env2) else None) \<rparr>
                  else d)
           (required_documents (fst (handleDocumentCheck2 env1 cl1 docId v (b, st))))
   \<and> required_documents
        (fst (handleDocumentCheck2 env2 cl2 docId v
                (handleDocumentCheck2 env1 cl1 docId v (b, st))))
       = required_documents (fst (handleDocumentCheck2 env2 cl2 docId v (b, st))))"
  (is "?H \<longrightarrow> ?C")
proof (rule impI)
  assume "?H"
  then have f: "\<not> fails env1 Update_required_documents"
    "\<not> fails env2 Update_required_documents"
    by simp_all
  let ?t1 = "map (toggle_doc docId v (toISOString env1)) (required_documents b)"
  let ?t2 = "map (toggle_doc docId v (toISOString env2)) ?t1"
  have one: "required_documents (fst (handleDocumentCheck1 env1 cl1 docId v (b, st))) = ?t1"
    "required_documents (fst (handleDocumentCheck2 env1 cl1 docId v (b, st))) = ?t1"
    using f by (simp_all add: toggle_documents)
  have two: "required_documents
               (fst (handleDocumentCheck1 env2 cl2 docId v
                       (handleDocumentCheck1 env1 cl1 docId v (b, st)))) = ?t2"
    "required_documents
               (fst (handleDocumentCheck2 env2 cl2 docId v
                       (handleDocumentCheck2 env1 cl1 docId v (b, st)))) = ?t2"
    using f by (simp_all add: toggle_twice_documents)
  have alone: "required_documents (fst (handleDocumentCheck1 env2 cl2 docId v (b, st)))
                 = map (toggle_doc docId v (toISOString env2)) (required_documents b)"
    "required_documents (fst (handleDocumentCheck2 env2 cl2 docId v (b, st)))
                 = map (toggle_doc docId v (toISOString env2)) (required_documents b)"
    using f by (simp_all add: toggle_documents)
  have u1: "\<forall>d \<in> set ?t1. doc_id d = docId \<longrightarrow> is_uploaded d = v \<and> (uploaded_at d \<noteq> None) = v"
    using toggle_doc_uploaded by blast
  have u2: "\<forall>d \<in> set ?t2. doc_id d = docId \<longrightarrow> is_uploaded d = v \<and> (uploaded_at d \<noteq> None) = v"
    using toggle_doc_uploaded by blast
  show "?C"
    unfolding one two alone
    by (intro conjI u1 u2 toggle_doc_again toggle_doc_absorbs)
qed


section \<open>Rejected and accepted uploads\<close>

lemma upload1_failed:
  assumes "(fails env Storage_upload \<or> file_path env assetId \<in> set (asset_images b))
             \<and> fails env Storage_upsert"
  shows "uploadImageToSupabase1 env cl assetId blob lat lon (b, st) = (Upload_failed, b, st)"
  using assms by (simp add: uploadImageToSupabase1_def)

lemma upload1_rejected:
  assumes "\<not> ((fails env Storage_upload \<or> file_path env assetId \<in> set (asset_images b))
             \<and> fails env Storage_upsert)"
    and "\<not> is_real (verifyImage (ai_backend env
             (Image_url (getPublicUrl env (file_path env assetId))
                (case selectedAsset cl of None \<Rightarrow> [] | Some sel \<Rightarrow> a_id sel))))"
  shows "uploadImageToSupabase1 env cl assetId blob lat lon (b, st)
           = (Image_rejected,
              (if fails env Storage_remove then storage_put (file_path env assetId) b
               else storage_remove (file_path env assetId) (storage_put (file_path env assetId) b)),
              st)"
  using assms by (simp add: uploadImageToSupabase1_def Let_def)

lemma upload1_accepted:
  assumes "\<not> ((fails env Storage_upload \<or> file_path env assetId \<in> set (asset_images b))
             \<and> fails env Storage_upsert)"
    and "is_real (verifyImage (ai_backend env
             (Image_url (getPublicUrl env (file_path env assetId))
                (case selectedAsset cl of None \<Rightarrow> [] | Some sel \<Rightarrow> a_id sel))))"
  shows "uploadImageToSupabase1 env cl assetId blob lat lon (b, st)
           = (Image_accepted,
              checkAndSetPendingStatus1 env cl
                ((if fails env Update_asset_preview then storage_put (file_path env assetId) b
                  else update_preview assetId (getPublicUrl env (file_path env assetId)) lat lon
                         (address_of env lat lon) (storage_put (file_path env assetId) b)),
                 fetchAssetImages1 env
                   (if fails env Update_asset_preview then storage_put (file_path env assetId) b
                    else update_preview assetId (getPublicUrl env (file_path env assetId)) lat lon
                           (address_of env lat lon) (storage_put (file_path env assetId) b))
                   assetId st))"
  using assms by (simp add: uploadImageToSupabase1_def Let_def)

lemma upload2_not_accepted:
  "fst (uploadImageToSupabase2 env cl assetId blob lat lon (b, st)) \<noteq> Image_accepted \<longrightarrow>
     snd (uploadImageToSupabase2 env cl assetId blob lat lon (b, st)) = (b, st)"
  by (simp add: uploadImageToSupabase2_def Let_def split: http_outcome.split option.split)

lemma upload2_accepted_or_unchanged:
  "uploadImageToSupabase2 env cl assetId blob lat lon (b, st)
     = (Image_accepted,
        checkAndSetPendingStatus2 env cl
          ((if fails env Update_asset_preview then storage_put (file_path env assetId) b
            else update_preview assetId (getPublicUrl env (file_path env assetId)) lat lon
                   (address_of env lat lon) (storage_put (file_path env assetId) b)),
           fetchAssetImages2 env
             (if fails env Update_asset_preview then storage_put (file_path env assetId) b
              else update_preview assetId (getPublicUrl env (file_path env assetId)) lat lon
                     (address_of env lat lon) (storage_put (file_path env assetId) b))
             assetId st))
   \<or> snd (uploadImageToSupabase2 env cl assetId blob lat lon (b, st)) = (b, st)"
  by (simp add: uploadImageToSupabase2_def Let_def split: http_outcome.split option.split)

lemma upload2_rejected:
  assumes "ai_backend env (Image_base64 blob assetId) = Response code (Some verifyJson)"
    and "res_ok code" and "decodeVerifyJson verifyJson = Some verification"
    and "\<not> is_real verification"
  shows "uploadImageToSupabase2 env cl assetId blob lat lon (b, st) = (Image_rejected, b, st)"
  using assms by (simp add: uploadImageToSupabase2_def)

lemma update_preview_after_put:
  "assets (update_preview i u la lo ad (storage_put p b)) = assets (update_preview i u la lo ad b)"
  by (simp add: update_preview_def)

lemma upload1_rejected_effect:
  assumes "fst (uploadImageToSupabase1 env cl assetId blob lat lon (b, st)) = Image_rejected"
  shows "assets (fst (snd (uploadImageToSupabase1 env cl assetId blob lat lon (b, st)))) = assets b
       \<and> required_documents (fst (snd (uploadImageToSupabase1 env cl assetId blob lat lon (b, st))))
           = required_documents b
       \<and> snd (snd (uploadImageToSupabase1 env cl assetId blob lat lon (b, st))) = st
       \<and> (\<not> fails env Storage_remove \<longrightarrow>
            file_path env assetId
              \<notin> set (asset_images
                       (fst (snd (uploadImageToSupabase1 env cl assetId blob lat lon (b, st))))))"
proof -
  let ?U = "(fails env Storage_upload \<or> file_path env assetId \<in> set (asset_images b))
              \<and> fails env Storage_upsert"
  let ?R = "is_real (verifyImage (ai_backend env
              (Image_url (getPublicUrl env (file_path env assetId))
                 (case selectedAsset cl of None \<Rightarrow> [] | Some sel \<Rightarrow> a_id sel))))"
  consider (failed) "?U" | (rejected) "\<not> ?U" "\<not> ?R" | (accepted) "\<not> ?U" "?R"
    by blast
  then show ?thesis
  proof cases
    case failed
    from upload1_failed [OF failed] assms show ?thesis by simp
  next
    case rejected
    from upload1_rejected [OF rejected] show ?thesis by (simp add: storage_remove_def)
  next
    case accepted
    from upload1_accepted [OF accepted] assms show ?thesis by simp
  qed
qed

lemma upload1_not_accepted:
  assumes "fst (uploadImageToSupabase1 env cl assetId blob lat lon (b, st)) \<noteq> Image_accepted"
  shows "assets (fst (snd (uploadImageToSupabase1 env cl assetId blob lat lon (b, st)))) = assets b"
proof -
  let ?U = "(fails env Storage_upload \<or> file_path env assetId \<in> set (asset_images b))
              \<and> fails env Storage_upsert"
  let ?R = "is_real (verifyImage (ai_backend env
              (Image_url (getPublicUrl env (file_path env assetId))
                 (case selectedAsset cl of None \<Rightarrow> [] | Some sel \<Rightarrow> a_id sel))))"
  consider (failed) "?U" | (rejected) "\<not> ?U" "\<not> ?R" | (accepted) "\<not> ?U" "?R"
    by blast
  then show ?thesis
  proof cases
    case failed
    from upload1_failed [OF failed] show ?thesis by simp
  next
    case rejected
    from upload1_rejected [OF rejected] show ?thesis by simp
  next
    case accepted
    from upload1_accepted [OF accepted] assms show ?thesis by simp
  qed
qed

lemma update_preview_rows:
  "map preview (assets (update_preview i u la lo ad b))
     = map (\<lambda>a. if a_id a = i then (Some u, la, lo, ad) else preview a) (assets b)"
  by (simp add: update_preview_def preview_def)

lemma preview_status_erased: "preview (a\<lparr> status := s \<rparr>) = preview a"
  by (simp add: preview_def)

lemma upload1_preview:
  "map preview (assets (fst (snd (uploadImageToSupabase1 env cl assetId blob lat lon (b, st)))))
     = map preview (assets b)
   \<or> map preview (assets (fst (snd (uploadImageToSupabase1 env cl assetId blob lat lon (b, st)))))
     = map preview (assets (update_preview assetId (getPublicUrl env (file_path env assetId))
                              lat lon (address_of env lat lon) b))"
proof -
  let ?U = "(fails env Storage_upload \<or> file_path env assetId \<in> set (asset_images b))
              \<and> fails env Storage_upsert"
  let ?R = "is_real (verifyImage (ai_backend env
              (Image_url (getPublicUrl env (file_path env assetId))
                 (case selectedAsset cl of None \<Rightarrow> [] | Some sel \<Rightarrow> a_id sel))))"
  consider (failed) "?U" | (rejected) "\<not> ?U" "\<not> ?R" | (accepted) "\<not> ?U" "?R"
    by blast
  then show ?thesis
  proof cases
    case failed
    from upload1_failed [OF failed] show ?thesis by simp
  next
    case rejected
    from upload1_rejected [OF rejected] show ?thesis by simp
  next
    case accepted
    from upload1_accepted [OF accepted] show ?thesis
      by (simp add: check_map preview_status_erased update_preview_after_put)
  qed
qed

lemma upload2_preview:
  "map preview (assets (fst (snd (uploadImageToSupabase2 env cl assetId blob lat lon (b, st)))))
     = map preview (assets b)
   \<or> map preview (assets (fst (snd (uploadImageToSupabase2 env cl assetId blob lat lon (b, st)))))
     = map preview (assets (update_preview assetId (getPublicUrl env (file_path env assetId))
                              lat lon (address_of env lat lon) b))"
  using upload2_accepted_or_unchanged [of env cl assetId blob lat lon b st]
  by (auto simp add: check_map preview_status_erased update_preview_after_put)

lemma other_operations_preview:
  "map preview (assets (fst (checkAndSetPendingStatus1 env cl (b, st)))) = map preview (assets b)"
  "map preview (assets (fst (checkAndSetPendingStatus2 env cl (b, st)))) = map preview (assets b)"
  "map preview (assets (fst (handleDocumentCheck1 env cl docId v (b, st)))) = map preview (assets b)"
  "map preview (assets (fst (handleDocumentCheck2 env cl docId v (b, st)))) = map preview (assets b)"
  "map preview (assets (fst (handleDeleteImage1 env cl url (b, st)))) = map preview (assets b)"
  "map preview (assets (fst (handleDeleteImage2 env cl url (b, st)))) = map preview (assets b)"
  "map preview (assets (fst (handleStatusUpdate env rv newStatus (b, rs)))) = map preview (assets b)"
  by (simp_all add: check_map toggle_map delete_map status_update_map preview_status_erased)

text \<open>
  C5, the claim as stated. In the store-then-verify file the image is stored before
  it is verified. The verifier rejects it with the score 0.2 and the removal that
  follows fails (its result is not looked at): the upload ends with the rejection,
  and the rejected image is still in the store under its path.
\<close>

theorem rejected_image_not_retrievable_counterexample:
  "\<not> is_real (verifyImage (ai_backend env_reject_keep
          (Image_url (getPublicUrl env_reject_keep (file_path env_reject_keep ''a1'')) ''a1'')))
   \<and> fst (uploadImageToSupabase1 env_reject_keep dashboard_nodocs ''a1'' ''img'' None None
             (backend_nodocs, dashboard_nodocs)) = Image_rejected
   \<and> file_path env_reject_keep ''a1'' = ''a1/17.jpg''
   \<and> asset_images backend_nodocs = []
   \<and> asset_images
        (fst (snd (uploadImageToSupabase1 env_reject_keep dashboard_nodocs ''a1'' ''img''
                     None None (backend_nodocs, dashboard_nodocs)))) = [''a1/17.jpg'']"
  by code_simp

text \<open>
  C5, amended. An upload that ends with a rejection leaves the asset rows, the
  documents and the component state as they were. In the verify-then-store file a
  rejection by the verifier leaves the store as it was too: the image was never
  written. In the store-then-verify file every rejection by the verifier ends the
  upload so, and the image is no longer in the store under its path if the removal
  did not fail. An upload that does not end with an accept changes no asset row.
  After any upload the four preview fields of all rows are either as before or as
  the one update that writes \<open>image_url\<close>, \<open>latitude\<close>, \<open>longitude\<close> and
  \<open>location_address\<close> together leaves them; no other operation changes them.
\<close>

theorem rejected_upload_leaves_asset_unchanged:
  "(fst (uploadImageToSupabase1 env cl assetId blob lat lon (b, st)) = Image_rejected \<longrightarrow>
        assets (fst (snd (uploadImageToSupabase1 env cl assetId blob lat lon (b, st)))) = assets b
      \<and> required_documents (fst (snd (uploadImageToSupabase1 env cl assetId blob lat lon (b, st))))
          = required_documents b
      \<and> snd (snd (uploadImageToSupabase1 env cl assetId blob lat lon (b, st))) = st
      \<and> (\<not> fails env Storage_remove \<longrightarrow>
            file_path env assetId
              \<notin> set (asset_images
                       (fst (snd (uploadImageToSupabase1 env cl assetId blob lat lon (b, st)))))))
   \<and> (\<not> ((fails env Storage_upload \<or> file_path env assetId \<in> set (asset_images b))
            \<and> fails env Storage_upsert)
       \<and> \<not> is_real (verifyImage (ai_backend env
              (Image_url (getPublicUrl env (file_path env assetId))
                 (case selectedAsset cl of None \<Rightarrow> [] | Some sel \<Rightarrow> a_id sel)))) \<longrightarrow>
        fst (uploadImageToSupabase1 env cl assetId blob lat lon (b, st)) = Image_rejected)
   \<and> (ai_backend env (Image_base64 blob assetId) = Response code (Some verifyJson)
       \<and> res_ok code \<and> decodeVerifyJson verifyJson = Some verification
       \<and> \<not> is_real verification \<longrightarrow>
        uploadImageToSupabase2 env cl assetId blob lat lon (b, st) = (Image_rejected, b, st))
   \<and> (fst (uploadImageToSupabase1 env cl assetId blob lat lon (b, st)) \<noteq> Image_accepted \<longrightarrow>
        assets (fst (snd (uploadImageToSupabase1 env cl assetId blob lat lon (b, st)))) = assets b)
   \<and> (fst (uploadImageToSupabase2 env cl assetId blob lat lon (b, st)) \<noteq> Image_accepted \<longrightarrow>
        snd (uploadImageToSupabase2 env cl assetId blob lat lon (b, st)) = (b, st))
   \<and> (map preview (assets (fst (snd (uploadImageToSupabase1 env cl assetId blob lat lon (b, st)))))
         = map preview (assets b)
       \<or> map preview
            (assets (fst (snd (uploadImageToSupabase1 env cl assetId blob lat lon (b, st)))))
         = map preview (assets (update_preview assetId (getPublicUrl env (file_path env assetId))
                                  lat lon (address_of env lat lon) b)))
   \<and> (map preview (assets (fst (snd (uploadImageToSupabase2 env cl assetId blob lat lon (b, st)))))
         = map preview (assets b)
       \<or> map preview
            (assets (fst (snd (uploadImageToSupabase2 env cl assetId blob lat lon (b, st)))))
         = map preview (assets (update_preview assetId (getPublicUrl env (file_path env assetId))
                                  lat lon (address_of env lat lon) b)))
   \<and> map preview (assets (fst (checkAndSetPendingStatus1 env cl (b, st)))) = map preview (assets b)
   \<and> map preview (assets (fst (checkAndSetPendingStatus2 env cl (b, st)))) = map preview (assets b)
   \<and> map preview (assets (fst (handleDocumentCheck1 env cl docId v (b, st))))
       = map preview (assets b)
   \<and> map preview (assets (fst (handleDocumentCheck2 env cl docId v (b, st))))
       = map preview (assets b)
   \<and> map preview (assets (fst (handleDeleteImage1 env cl url (b, st)))) = map preview (assets b)
   \<and> map preview (assets (fst (handleDeleteImage2 env cl url (b, st)))) = map preview (assets b)
   \<and> map preview (assets (fst (handleStatusUpdate env rv newStatus (b, rs))))
       = map preview (assets b)"
proof -
  have r1: "fst (uploadImageToSupabase1 env cl assetId blob lat lon (b, st)) = Image_rejected \<longrightarrow>
        assets (fst (snd (uploadImageToSupabase1 env cl assetId blob lat lon (b, st)))) = assets b
      \<and> required_documents (fst (snd (uploadImageToSupabase1 env cl assetId blob lat lon (b, st))))
          = required_documents b
      \<and> snd (snd (uploadImageToSupabase1 env cl assetId blob lat lon (b, st))) = st
      \<and> (\<not> fails env Storage_remove \<longrightarrow>
            file_path env assetId
              \<notin> set (asset_images
                       (fst (snd (uploadImageToSupabase1 env cl assetId blob lat lon (b, st))))))"
    using upload1_rejected_effect by blast
  have r2: "\<not> ((fails env Storage_upload \<or> file_path env assetId \<in> set (asset_images b))
            \<and> fails env Storage_upsert)
       \<and> \<not> is_real (verifyImage (ai_backend env
              (Image_url (getPublicUrl env (file_path env assetId))
                 (case selectedAsset cl of None \<Rightarrow> [] | Some sel \<Rightarrow> a_id sel)))) \<longrightarrow>
        fst (uploadImageToSupabase1 env cl assetId blob lat lon (b, st)) = Image_rejected"
    using upload1_rejected [of env assetId b cl blob lat lon st] by simp
  have r3: "ai_backend env (Image_base64 blob assetId) = Response code (Some verifyJson)
       \<and> res_ok code \<and> decodeVerifyJson verifyJson = Some verification
       \<and> \<not> is_real verification \<longrightarrow>
        uploadImageToSupabase2 env cl assetId blob lat lon (b, st) = (Image_rejected, b, st)"
    using upload2_rejected by blast
  have r4: "fst (uploadImageToSupabase1 env cl assetId blob lat lon (b, st)) \<noteq> Image_accepted \<longrightarrow>
        assets (fst (snd (uploadImageToSupabase1 env cl assetId blob lat lon (b, st)))) = assets b"
    using upload1_not_accepted by blast
  show ?thesis
    by (intro conjI r1 r2 r3 r4 upload2_not_accepted upload1_preview upload2_preview
          other_operations_preview)
qed

theorem rejected_upload_leaves_asset_unchanged_witness:
  "fst (uploadImageToSupabase1 env_reject dashboard_nodocs ''a1'' ''img'' None None
          (backend_nodocs, dashboard_nodocs)) = Image_rejected
   \<and> \<not> fails env_reject Storage_remove
   \<and> \<not> ((fails env_reject Storage_upload
          \<or> file_path env_reject ''a1'' \<in> set (asset_images backend_nodocs))
         \<and> fails env_reject Storage_upsert)
   \<and> \<not> is_real (verifyImage (ai_backend env_reject
          (Image_url (getPublicUrl env_reject (file_path env_reject ''a1''))
             (case selectedAsset dashboard_nodocs of None \<Rightarrow> [] | Some sel \<Rightarrow> a_id sel))))
   \<and> ai_backend env_reject (Image_base64 ''img'' ''a1'') = Response 200 (Some rejecting_answer)
   \<and> res_ok 200
   \<and> decodeVerifyJson rejecting_answer
       = Some \<lparr> is_real = False, authenticity_score = JNum (2 / 10),
                reason = JStr ''Rejected'' \<rparr>
   \<and> fst (uploadImageToSupabase2 env_reject dashboard_nodocs ''a1'' ''img'' None None
             (backend_nodocs, dashboard_nodocs)) \<noteq> Image_accepted
   \<and> snd (uploadImageToSupabase1 env_reject dashboard_nodocs ''a1'' ''img'' None None
             (backend_nodocs, dashboard_nodocs)) = (backend_nodocs, dashboard_nodocs)
   \<and> uploadImageToSupabase2 env_reject dashboard_nodocs ''a1'' ''img'' None None
         (backend_nodocs, dashboard_nodocs) = (Image_rejected, backend_nodocs, dashboard_nodocs)"
proof -
  have h1: "fst (uploadImageToSupabase1 env_reject dashboard_nodocs ''a1'' ''img'' None None
          (backend_nodocs, dashboard_nodocs)) = Image_rejected"
    and h2: "\<not> fails env_reject Storage_remove"
    and h3: "\<not> ((fails env_reject Storage_upload
          \<or> file_path env_reject ''a1'' \<in> set (asset_images backend_nodocs))
         \<and> fails env_reject Storage_upsert)"
    and h4: "\<not> is_real (verifyImage (ai_backend env_reject
          (Image_url (getPublicUrl env_reject (file_path env_reject ''a1''))
             (case selectedAsset dashboard_nodocs of None \<Rightarrow> [] | Some sel \<Rightarrow> a_id sel))))"
    and h5: "ai_backend env_reject (Image_base64 ''img'' ''a1'')
               = Response 200 (Some rejecting_answer)"
    and h6: "res_ok 200"
    and h7: "decodeVerifyJson rejecting_answer
       = Some \<lparr> is_real = False, authenticity_score = JNum (2 / 10),
                reason = JStr ''Rejected'' \<rparr>"
    and h8: "fst (uploadImageToSupabase2 env_reject dashboard_nodocs ''a1'' ''img'' None None
             (backend_nodocs, dashboard_nodocs)) \<noteq> Image_accepted"
    by code_simp+
  have e: "snd (uploadImageToSupabase1 env_reject dashboard_nodocs ''a1'' ''img'' None None
             (backend_nodocs, dashboard_nodocs)) = (backend_nodocs, dashboard_nodocs)"
    by code_simp
  note t = rejected_upload_leaves_asset_unchanged
             [where env = env_reject and cl = dashboard_nodocs and assetId = "''a1''"
                and blob = "''img''" and lat = None and lon = None and b = backend_nodocs
                and st = dashboard_nodocs and code = 200 and verifyJson = rejecting_answer
                and verification = "\<lparr> is_real = False, authenticity_score = JNum (2 / 10),
                                      reason = JStr ''Rejected'' \<rparr>"]
  from t h5 h6 h7 have "uploadImageToSupabase2 env_reject dashboard_nodocs ''a1'' ''img'' None None
         (backend_nodocs, dashboard_nodocs) = (Image_rejected, backend_nodocs, dashboard_nodocs)"
    by simp
  with h1 h2 h3 h4 h5 h6 h7 h8 e show ?thesis by simp
qed

section \<open>The verification gate\<close>

lemma res_ok_200: "res_ok 200"
  by (simp add: res_ok_def)







section \<open>The statuses written from the beneficiary's dashboard\<close>

lemma only_pending_update_status:
  assumes "map status (assets b0) = map status (assets b)"
  shows "only_pending_written b (update_status i Pending b0)"
proof -
  have "list_all2 (\<lambda>s s'. s' = s \<or> s' = Pending) (map status xs)
          (map status (map (\<lambda>a. if a_id a = i then a\<lparr> status := Pending \<rparr> else a) xs))" for xs
    by (induction xs) auto
  from this [of "assets b0"] show ?thesis
    using assms by (simp add: only_pending_written_def update_status_def)
qed

lemma only_pending_same:
  assumes "map status (assets b0) = map status (assets b)"
  shows "only_pending_written b b0"
  using assms by (simp add: only_pending_written_def list_all2_same)

lemma check_only_pending:
  assumes "map status (assets b0) = map status (assets b)"
  shows "only_pending_written b (fst (checkAndSetPendingStatus1 env cl (b0, st)))"
    and "only_pending_written b (fst (checkAndSetPendingStatus2 env cl (b0, st)))"
  using assms
  by (simp_all add: check1_backend check2_backend only_pending_update_status only_pending_same
        split: option.splits)

lemma beneficiary_writes_only_pending:
  "only_pending_written b (fst (handleDocumentCheck1 env cl docId v (b, st)))"
  "only_pending_written b (fst (handleDocumentCheck2 env cl docId v (b, st)))"
  "only_pending_written b (fst (handleDeleteImage1 env cl url (b, st)))"
  "only_pending_written b (fst (handleDeleteImage2 env cl url (b, st)))"
  by (simp_all add: handleDocumentCheck1_def handleDocumentCheck2_def handleDeleteImage1_def
        handleDeleteImage2_def Let_def check_only_pending only_pending_same
        split: option.splits)

lemma upload_writes_only_pending:
  "only_pending_written b
     (fst (snd (uploadImageToSupabase1 env cl assetId blob lat lon (b, st))))"
  "only_pending_written b
     (fst (snd (uploadImageToSupabase2 env cl assetId blob lat lon (b, st))))"
proof -
  let ?U = "(fails env Storage_upload \<or> file_path env assetId \<in> set (asset_images b))
              \<and> fails env Storage_upsert"
  let ?R = "is_real (verifyImage (ai_backend env
              (Image_url (getPublicUrl env (file_path env assetId))
                 (case selectedAsset cl of None \<Rightarrow> [] | Some sel \<Rightarrow> a_id sel))))"
  consider (failed) "?U" | (rejected) "\<not> ?U" "\<not> ?R" | (accepted) "\<not> ?U" "?R"
    by blast
  then show "only_pending_written b
     (fst (snd (uploadImageToSupabase1 env cl assetId blob lat lon (b, st))))"
  proof cases
    case failed
    from upload1_failed [OF failed] show ?thesis by (simp add: only_pending_same)
  next
    case rejected
    from upload1_rejected [OF rejected] show ?thesis by (simp add: only_pending_same)
  next
    case accepted
    from upload1_accepted [OF accepted] show ?thesis
      by (simp add: check_only_pending update_preview_map)
  qed
next
  show "only_pending_written b
     (fst (snd (uploadImageToSupabase2 env cl assetId blob lat lon (b, st))))"
    using upload2_accepted_or_unchanged [of env cl assetId blob lat lon b st]
    by (auto simp add: check_only_pending update_preview_map only_pending_same)
qed

text \<open>
  C3. The claim: deleting an image of a pending asset so that fewer images than
  required documents remain sets the status back to "non-verified". A pending asset
  has one required document and one image; the image is deleted through the
  dashboard. In both files the store then holds no image of the asset against one
  required document, and the persisted status is still "pending". By the lemmas above
  no operation of the beneficiary's dashboard writes any status but "pending".
\<close>

theorem delete_below_count_keeps_pending:
  "asset_images (fst (handleDeleteImage1 env0 dashboard_pending image1_url
                        (backend_pending, dashboard_pending))) = []
   \<and> select_required_documents
        (fst (handleDeleteImage1 env0 dashboard_pending image1_url
                (backend_pending, dashboard_pending))) ''a1'' = [doc1]
   \<and> status_of (fst (handleDeleteImage1 env0 dashboard_pending image1_url
                        (backend_pending, dashboard_pending))) ''a1'' = [Pending]
   \<and> asset_images (fst (handleDeleteImage2 env0 dashboard_pending image1_url
                          (backend_pending, dashboard_pending))) = []
   \<and> select_required_documents
        (fst (handleDeleteImage2 env0 dashboard_pending image1_url
                (backend_pending, dashboard_pending))) ''a1'' = [doc1]
   \<and> status_of (fst (handleDeleteImage2 env0 dashboard_pending image1_url
                        (backend_pending, dashboard_pending))) ''a1'' = [Pending]"
  by code_simp

section \<open>The reviewer's decisions\<close>

text \<open>
  The Grant button is offered only while the asset details held by the component
  say "pending".
\<close>

lemma grant_offered_on_held_status:
  "reviewer_step env Click_grant (b, st) = Some r \<Longrightarrow>
     \<exists>details. assetDetails st = Some details \<and> ad_status details = Pending"
  by (auto simp: grant_buttons_rendered_def split: if_splits option.splits)

text \<open>
  When the asset query finds the user's asset, the details held afterwards are those
  of the store, so that the button is then offered on the persisted status.
\<close>

lemma fetched_details_match_store:
  assumes "select_asset_single env b userId = Some asset"
  shows "\<exists>details. assetDetails (snd (handleUserClick env userId (b, st))) = Some details
           \<and> ad_id details = a_id asset \<and> ad_status details = status asset"
  using assms by (simp add: handleUserClick_def fetchAssetDetails_def Let_def)

text \<open>
  C7. The claim: no execution of the reviewer's flow moves an asset from
  "non-verified" to "authenticated" directly; Grant is only ever applied to an asset
  whose status is "pending". The reviewer opens the pending asset of user \<open>u1\<close> and
  rejects it: its persisted status is "non-verified". Closing the popup clears
  \<open>selectedUser\<close> and keeps \<open>assetDetails\<close>. The reviewer then clicks a user for whom
  the asset query returns no single row: \<open>fetchAssetDetails\<close> returns without
  setting anything, the popup opens on the details held from before, which still say
  "pending", and shows the Grant button. Grant writes "authenticated" to the
  rejected asset.
\<close>

theorem stale_details_grant_rejected_asset:
  "status_of backend_pending ''a1'' = [Pending]
   \<and> status_after env0 [Click_user ''u1'', Click_non_grant]
         (backend_pending, initial_review) ''a1'' = Some [NonVerified]
   \<and> select_asset_single env0 backend_pending ''u2'' = None
   \<and> status_after env0 [Click_user ''u1'', Click_non_grant, Click_user ''u2'']
         (backend_pending, initial_review) ''a1'' = Some [NonVerified]
   \<and> status_after env0 [Click_user ''u1'', Click_non_grant, Click_user ''u2'', Click_grant]
         (backend_pending, initial_review) ''a1'' = Some [Authenticated]"
  by code_simp

end
